theory Spec2Isabelle
  imports Main "HOL-Library.Char_ord" "HOL-Library.List_Lexorder" "HOL-Library.Product_Lexorder"
begin

section \<open>Text: the string operations of the interpreter that the program calls\<close>

text \<open>
  A Python \<open>str\<close> is a sequence of code points. The model covers the code points
  0..255 (Latin-1), one \<^typ>\<open>char\<close> each, which holds the three shift labels
  of the program (the letter n-tilde of the first label is code point 0xF1). On this range the
  order of \<^typ>\<open>string\<close> (lexicographic, by code point) is the order in which the
  storage engine compares TEXT values (bytewise on UTF-8, which keeps the order of code points).
\<close>

definition isspace :: "char \<Rightarrow> bool" where
  \<comment> \<open>\<open>str.isspace\<close> on one code point below 256\<close>
  "isspace c = (of_char c \<in> {9, 10, 11, 12, 13, 28, 29, 30, 31, 32, 133, 160 :: nat})"

definition strip :: "string \<Rightarrow> string" where
  \<comment> \<open>\<open>str.strip()\<close>: leading and trailing whitespace removed\<close>
  "strip s = rev (dropWhile isspace (rev (dropWhile isspace s)))"

definition lower_char :: "char \<Rightarrow> char" where
  \<comment> \<open>A..Z and the accented capitals 0xC0..0xDE (0xD7, the multiplication sign, apart)
      have their lower case 32 code points above\<close>
  "lower_char c =
     (let n = (of_char c :: nat)
      in if (65 \<le> n \<and> n \<le> 90) \<or> (192 \<le> n \<and> n \<le> 222 \<and> n \<noteq> 215)
         then char_of (n + 32) else c)"

definition lower :: "string \<Rightarrow> string" where
  \<comment> \<open>\<open>str.lower()\<close>\<close>
  "lower s = map lower_char s"

definition isdigit :: "char \<Rightarrow> bool" where
  "isdigit c = (48 \<le> (of_char c :: nat) \<and> (of_char c :: nat) \<le> 57)"

definition digit_val :: "char \<Rightarrow> nat" where
  "digit_val c = of_char c - 48"

fun digits_ok :: "string \<Rightarrow> bool" where
  \<comment> \<open>a digit, then digits with single underscores between them\<close>
  "digits_ok [] = False"
| "digits_ok [c] = isdigit c"
| "digits_ok (c # d # r) =
     (isdigit c \<and> (if d = CHR ''_'' then digits_ok r else digits_ok (d # r)))"

definition decimal :: "string \<Rightarrow> nat" where
  \<comment> \<open>the value of a string of digits, underscores skipped\<close>
  "decimal s = foldl (\<lambda>acc c. 10 * acc + digit_val c) 0 (filter isdigit s)"

definition MAX_STR_DIGITS :: nat where
  \<comment> \<open>the interpreter's default limit on the digits of an integer literal in a string\<close>
  "MAX_STR_DIGITS = 4300"

definition int_isspace :: "char \<Rightarrow> bool" where
  \<comment> \<open>the whitespace that \<open>int\<close> skips around the digits: that of \<open>str.strip\<close> without the
      four separators 0x1C to 0x1F\<close>
  "int_isspace c = (of_char c \<in> {9, 10, 11, 12, 13, 32, 133, 160 :: nat})"

definition int_strip :: "string \<Rightarrow> string" where
  "int_strip s = rev (dropWhile int_isspace (rev (dropWhile int_isspace s)))"

definition py_int :: "string \<Rightarrow> int option" where
  \<comment> \<open>\<open>int(s)\<close>; \<open>None\<close> is ValueError\<close>
  "py_int s =
     (let t = int_strip s;
          neg = (t \<noteq> [] \<and> hd t = CHR ''-'');
          u = (if t \<noteq> [] \<and> (hd t = CHR ''-'' \<or> hd t = CHR ''+'') then tl t else t)
      in if digits_ok u \<and> length (filter isdigit u) \<le> MAX_STR_DIGITS
         then Some (if neg then - int (decimal u) else int (decimal u))
         else None)"

section \<open>Dates\<close>

text \<open>
  A \<open>datetime.date\<close> is modelled by its proleptic Gregorian ordinal
  (\<open>date.toordinal()\<close>: 1 is 0001-01-01, 3652059 is 9999-12-31), on which the library
  itself computes: the difference of two dates is the difference of their ordinals,
  \<open>weekday()\<close> is \<open>(toordinal() + 6) % 7\<close> with Monday 0 and Sunday 6, and adding a
  \<open>timedelta\<close> raises OverflowError when the result leaves the range of dates.
\<close>

type_synonym date = int

definition MINORDINAL :: date where "MINORDINAL = 1"
definition MAXORDINAL :: date where "MAXORDINAL = 3652059"

definition valid_date :: "date \<Rightarrow> bool" where
  "valid_date d = (MINORDINAL \<le> d \<and> d \<le> MAXORDINAL)"

definition weekday :: "date \<Rightarrow> int" where
  "weekday d = (d + 6) mod 7"

definition days_between :: "date \<Rightarrow> date \<Rightarrow> int" where
  \<comment> \<open>\<open>(a - b).days\<close>\<close>
  "days_between a b = a - b"

datatype excepcion = EOFError | IndexError | OverflowError

definition add_days :: "date \<Rightarrow> int \<Rightarrow> excepcion + date" where
  \<comment> \<open>\<open>d + datetime.timedelta(days=n)\<close>\<close>
  "add_days d n = (if valid_date (d + n) then Inr (d + n) else Inl OverflowError)"

definition is_leap :: "int \<Rightarrow> bool" where
  "is_leap y = (y mod 4 = 0 \<and> (y mod 100 \<noteq> 0 \<or> y mod 400 = 0))"

definition days_before_year :: "int \<Rightarrow> int" where
  "days_before_year y = (y - 1) * 365 + (y - 1) div 4 - (y - 1) div 100 + (y - 1) div 400"

definition days_in_month :: "int \<Rightarrow> int \<Rightarrow> int" where
  "days_in_month y m =
     (if m = 2 then (if is_leap y then 29 else 28)
      else if m \<in> {4, 6, 9, 11} then 30 else 31)"

definition days_before_month :: "int \<Rightarrow> int \<Rightarrow> int" where
  "days_before_month y m =
     [0, 31, 59, 90, 120, 151, 181, 212, 243, 273, 304, 334] ! nat (m - 1)
     + (if m > 2 \<and> is_leap y then 1 else 0)"

definition ord2ymd :: "date \<Rightarrow> int \<times> int \<times> int" where
  \<comment> \<open>year, month and day of \<open>datetime.date.fromordinal(n)\<close>, computed as the library does:
      \<open>n - 1\<close> is split into cycles of 400 years, centuries, cycles of 4 years and years\<close>
  "ord2ymd n =
     (let n400 = (n - 1) div 146097; r400 = (n - 1) mod 146097;
          n100 = r400 div 36524; r100 = r400 mod 36524;
          n4 = r100 div 1461; r4 = r100 mod 1461;
          n1 = r4 div 365; r = r4 mod 365;
          year = n400 * 400 + 1 + n100 * 100 + n4 * 4 + n1
      in if n1 = 4 \<or> n100 = 4 then (year - 1, 12, 31)
         else
           (let leapyear = (n1 = 3 \<and> (n4 \<noteq> 24 \<or> n100 = 3));
                month = (r + 50) div 32;
                preceding = [0, 31, 59, 90, 120, 151, 181, 212, 243, 273, 304, 334] ! nat (month - 1)
                            + (if month > 2 \<and> leapyear then 1 else 0)
            in if preceding > r
               then (year, month - 1,
                     r - (preceding
                          - ([31, 28, 31, 30, 31, 30, 31, 31, 30, 31, 30, 31] ! nat (month - 2)
                             + (if month - 1 = 2 \<and> leapyear then 1 else 0))) + 1)
               else (year, month, r - preceding + 1)))"

definition day_of_month :: "date \<Rightarrow> int" where
  \<comment> \<open>\<open>date.day\<close>\<close>
  "day_of_month d = snd (snd (ord2ymd d))"

definition ymd2ord :: "int \<Rightarrow> int \<Rightarrow> int \<Rightarrow> date option" where
  \<comment> \<open>\<open>datetime.date(y, m, d).toordinal()\<close>; \<open>None\<close> is the ValueError of a date
      that does not exist\<close>
  "ymd2ord y m d =
     (if 1 \<le> y \<and> y \<le> 9999 \<and> 1 \<le> m \<and> m \<le> 12 \<and> 1 \<le> d \<and> d \<le> days_in_month y m
      then Some (days_before_year y + days_before_month y m + d)
      else None)"

text \<open>
  \<open>strptime(s, "%m-%d-%Y")\<close> matches \<open>s\<close> against the regular expression of the format,
  \<open>(1[0-2]|0[1-9]|[1-9])-(3[0-1]|[1-2]\d|0[1-9]|[1-9]| [1-9])-(\d\d\d\d)\<close>, alternatives
  tried from left to right, then requires that nothing of \<open>s\<close> remains and that the date
  exists. Each matcher returns, in the order the alternatives are tried, the value read and
  the rest of the text.
\<close>

definition nonzero_digit :: "char \<Rightarrow> bool" where
  "nonzero_digit c = (isdigit c \<and> c \<noteq> CHR ''0'')"

definition re_m :: "string \<Rightarrow> (int \<times> string) list" where
  "re_m s =
     (case s of
        a # b # r \<Rightarrow>
          (if a = CHR ''1'' \<and> b \<in> {CHR ''0'', CHR ''1'', CHR ''2''}
           then [(10 + int (digit_val b), r)] else []) @
          (if a = CHR ''0'' \<and> nonzero_digit b then [(int (digit_val b), r)] else [])
      | _ \<Rightarrow> []) @
     (case s of
        a # r \<Rightarrow> if nonzero_digit a then [(int (digit_val a), r)] else []
      | [] \<Rightarrow> [])"

definition re_d :: "string \<Rightarrow> (int \<times> string) list" where
  "re_d s =
     (case s of
        a # b # r \<Rightarrow>
          (if a = CHR ''3'' \<and> b \<in> {CHR ''0'', CHR ''1''}
           then [(30 + int (digit_val b), r)] else []) @
          (if a \<in> {CHR ''1'', CHR ''2''} \<and> isdigit b
           then [(10 * int (digit_val a) + int (digit_val b), r)] else []) @
          (if a = CHR ''0'' \<and> nonzero_digit b then [(int (digit_val b), r)] else [])
      | _ \<Rightarrow> []) @
     (case s of
        a # r \<Rightarrow> if nonzero_digit a then [(int (digit_val a), r)] else []
      | [] \<Rightarrow> []) @
     (case s of
        a # b # r \<Rightarrow>
          if a = CHR '' '' \<and> nonzero_digit b then [(int (digit_val b), r)] else []
      | _ \<Rightarrow> [])"

definition re_Y :: "string \<Rightarrow> (int \<times> string) list" where
  "re_Y s =
     (case s of
        a # b # c # d # r \<Rightarrow>
          if isdigit a \<and> isdigit b \<and> isdigit c \<and> isdigit d
          then [(int (decimal [a, b, c, d]), r)] else []
      | _ \<Rightarrow> [])"

definition re_dash :: "string \<Rightarrow> string list" where
  "re_dash s = (case s of a # r \<Rightarrow> if a = CHR ''-'' then [r] else [] | [] \<Rightarrow> [])"

definition strptime :: "string \<Rightarrow> date option" where
  \<comment> \<open>\<open>datetime.datetime.strptime(s, "%m-%d-%Y").date()\<close>; \<open>None\<close> is ValueError\<close>
  "strptime s =
     (case concat (map (\<lambda>(m, r1). concat (map (\<lambda>r2. concat (map (\<lambda>(d, r3).
               concat (map (\<lambda>r4. map (\<lambda>(y, r5). (m, d, y, r5)) (re_Y r4)) (re_dash r3)))
             (re_d r2))) (re_dash r1))) (re_m s)) of
        [] \<Rightarrow> None
      | (m, d, y, rest) # _ \<Rightarrow> if rest = [] then ymd2ord y m d else None)"

section \<open>The store\<close>

text \<open>
  The three tables of \<open>inicializar_bd\<close>, each a list of rows. Integer columns hold
  64-bit values; binding a Python integer outside that range to a query parameter raises
  OverflowError. \<open>fecha_registro\<close> is the reserved date combined with the time of day of
  the registration (microseconds since midnight, below 86400000000), stored as the text
  \<open>YYYY-MM-DD HH:MM:SS.ffffff\<close> (line 11); read back by the program (line 14) it is that
  date and time again. \<open>seq_reservaciones\<close> is the AUTOINCREMENT counter of the
  reservations table. The store is taken to answer every statement (no \<open>sqlite3.Error\<close>),
  dates to have four-digit years, for which \<open>strftime("%Y-%m-%d")\<close> and \<open>DATE\<close> give
  the same text exactly for the same date, and the program to be the only writer.

  \<open>DATE(fecha_registro)\<close> is computed by the storage engine (SQLite 3.46) from the stored
  text: the text is read into a day number with the time of day rounded to the millisecond,
  and when the day of the month is above 28 the date is computed again from that number. A
  time of day of 23:59:59.9995 or later rounds to the next midnight, so on the days 29, 30 and
  31 of a month \<open>DATE\<close> is then the day after the stored date, and NULL, which is equal
  to no date, when that day is after 9999-12-31. In every other case \<open>DATE\<close> is the stored
  date.
\<close>

type_synonym hora = nat

record cliente =
  c_id_cliente :: int
  c_nombre :: string
  c_apellidos :: string

record sala =
  s_id_sala :: int
  s_nombre :: string
  s_cupo :: int

record reservacion =
  r_folio :: int
  r_id_cliente :: int
  r_id_sala :: int
  r_fecha_registro :: "date \<times> hora"
  r_turno :: string
  r_evento :: string

record db =
  clientes :: "cliente list"
  salas :: "sala list"
  reservaciones :: "reservacion list"
  seq_reservaciones :: int

definition DATE :: "date \<times> hora \<Rightarrow> date option" where
  \<comment> \<open>\<open>None\<close> is NULL\<close>
  "DATE ts =
     (case ts of (f, h) \<Rightarrow>
        if 28 < day_of_month f \<and> 86399999500 \<le> h
        then (if f + 1 \<le> MAXORDINAL then Some (f + 1) else None)
        else Some f)"

definition sqlite_int :: "int \<Rightarrow> bool" where
  "sqlite_int k = (- (2 ^ 63) \<le> k \<and> k < 2 ^ 63)"

definition manana :: string where
  "manana = ''ma'' @ [CHR 0xF1] @ ''ana''"

definition TURNOS :: "string list" where
  \<comment> \<open>the list literal of lines 186 and 203\<close>
  "TURNOS = [manana, ''tarde'', ''noche'']"

section \<open>Console\<close>

text \<open>
  \<open>input()\<close> takes the next line of the list of lines still to be read and raises EOFError
  when there is none. What a function prints is the list of its messages, in order; a
  message stands for the line of the source given beside it. Tables are not rendered.
\<close>

type_synonym entrada = "string list"

datatype msg =
    FormatoIncorrecto      \<comment> \<open>line 80\<close>
  | DebeReservar           \<comment> \<open>line 84\<close>
  | DomingoSugerido date   \<comment> \<open>line 88, with the proposed date\<close>
  | FechaNoValida          \<comment> \<open>line 137\<close>
  | DebeReservarse         \<comment> \<open>line 142\<close>
  | DomingoNoPermitido     \<comment> \<open>line 146\<close>
  | NoHayClientes          \<comment> \<open>line 154\<close>
  | TablaClientes          \<comment> \<open>line 157\<close>
  | ClaveInvalida          \<comment> \<open>line 164\<close>
  | ClienteNoEncontrado    \<comment> \<open>line 170\<close>
  | NoHaySalas             \<comment> \<open>line 180\<close>
  | NoHaySalasDisponibles  \<comment> \<open>line 193\<close>
  | TablaSalas "(int \<times> string \<times> int \<times> string list) list"  \<comment> \<open>line 196\<close>
  | SalaOcupada            \<comment> \<open>line 206\<close>
  | SeleccionInvalida      \<comment> \<open>line 210\<close>
  | EventoVacio            \<comment> \<open>line 216\<close>
  | Registrada int string string date string string
      \<comment> \<open>line 237: folio, client, room, date, shift, event\<close>
  | FechasInvalidas        \<comment> \<open>line 257\<close>
  | NoHayEnRango           \<comment> \<open>line 271\<close>
  | TablaRango "(int \<times> string \<times> date) list"  \<comment> \<open>line 275\<close>
  | IngreseFolio           \<comment> \<open>line 283\<close>
  | FolioInvalido          \<comment> \<open>line 287\<close>
  | Cancelada              \<comment> \<open>line 291\<close>
  | FolioNoEncontrado      \<comment> \<open>line 296\<close>
  | EventoVacioEdicion     \<comment> \<open>line 302\<close>
  | Actualizado            \<comment> \<open>line 305\<close>
  | FechaInvalida          \<comment> \<open>line 316\<close>
  | NoHayEnFecha           \<comment> \<open>line 329\<close>
  | TablaConsulta "(int \<times> string \<times> string \<times> string \<times> string) list"  \<comment> \<open>line 331\<close>
  | Exportado date "(int \<times> string \<times> string \<times> string \<times> string) list"
      \<comment> \<open>lines 336 to 338: the report file written, and its notice\<close>

text \<open>
  How a block of a function ends: with a value and the lines not yet read, by returning
  from the enclosing function, or with an exception.
\<close>

datatype 'a flujo = Valor 'a entrada | Retorno entrada | Lanza excepcion

definition emite :: "msg list \<Rightarrow> msg list \<times> 'a \<Rightarrow> msg list \<times> 'a" where
  "emite ms p = (ms @ fst p, snd p)"

section \<open>Validators\<close>

definition validar_evento :: "string \<Rightarrow> bool" where
  "validar_evento evento = (strip evento \<noteq> [])"

definition validar_clave_cliente :: "int \<Rightarrow> cliente list \<Rightarrow> bool" where
  "validar_clave_cliente clave cs = list_ex (\<lambda>c. c_id_cliente c = clave) cs"

fun validar_fecha :: "date \<Rightarrow> string \<Rightarrow> entrada \<Rightarrow> msg list \<times> date option flujo" where
  "validar_fecha hoy fecha_str ins =
     (case strptime fecha_str of
        None \<Rightarrow> ([FormatoIncorrecto], Valor None ins)
      | Some fecha \<Rightarrow>
          if days_between fecha hoy < 2 then ([DebeReservar], Valor None ins)
          else if weekday fecha = 6 then
            (case add_days fecha 1 of
               Inl e \<Rightarrow> ([], Lanza e)
             | Inr sugerido \<Rightarrow>
                 (case ins of
                    [] \<Rightarrow> ([DomingoSugerido sugerido], Lanza EOFError)
                  | aceptar # rest \<Rightarrow>
                      if lower aceptar = ''s''
                      then ([DomingoSugerido sugerido], Valor (Some sugerido) rest)
                      else ([DomingoSugerido sugerido], Valor None rest)))
          else ([], Valor (Some fecha) ins))"

definition validar_fecha_simple :: "date \<Rightarrow> string \<Rightarrow> msg list \<times> date option" where
  "validar_fecha_simple hoy fecha_str =
     (case strptime fecha_str of
        None \<Rightarrow> ([FechaNoValida], None)
      | Some fecha \<Rightarrow>
          if days_between fecha hoy < 2 then ([DebeReservarse], None)
          else if weekday fecha = 6 then ([DomingoNoPermitido], None)
          else ([], Some fecha))"

section \<open>Availability\<close>

definition existente :: "db \<Rightarrow> int \<Rightarrow> date \<Rightarrow> string \<Rightarrow> reservacion list" where
  \<comment> \<open>the SELECT of line 100\<close>
  "existente bd id_sala fecha turno =
     filter (\<lambda>r. r_id_sala r = id_sala \<and> DATE (r_fecha_registro r) = Some fecha
                 \<and> r_turno r = turno)
       (reservaciones bd)"

definition sala_disponible :: "db \<Rightarrow> int \<Rightarrow> date \<Rightarrow> string \<Rightarrow> excepcion + bool" where
  "sala_disponible bd id_sala fecha turno =
     (if sqlite_int id_sala then Inr (length (existente bd id_sala fecha turno) = 0)
      else Inl OverflowError)"

fun turnos_libres :: "db \<Rightarrow> int \<Rightarrow> date \<Rightarrow> string list \<Rightarrow> excepcion + string list" where
  \<comment> \<open>the inner loop of lines 185 to 188, over the shifts still to be tried\<close>
  "turnos_libres bd id_sala fecha [] = Inr []"
| "turnos_libres bd id_sala fecha (turno # ts) =
     (case sala_disponible bd id_sala fecha turno of
        Inl e \<Rightarrow> Inl e
      | Inr libre \<Rightarrow>
          (case turnos_libres bd id_sala fecha ts of
             Inl e \<Rightarrow> Inl e
           | Inr l \<Rightarrow> Inr (if libre then turno # l else l)))"

fun disponible_salas ::
  "db \<Rightarrow> date \<Rightarrow> sala list \<Rightarrow> excepcion + (int \<times> string \<times> int \<times> string list) list" where
  \<comment> \<open>the outer loop of lines 183 to 190\<close>
  "disponible_salas bd fecha [] = Inr []"
| "disponible_salas bd fecha (s # ss) =
     (case turnos_libres bd (s_id_sala s) fecha TURNOS of
        Inl e \<Rightarrow> Inl e
      | Inr libres \<Rightarrow>
          (case disponible_salas bd fecha ss of
             Inl e \<Rightarrow> Inl e
           | Inr l \<Rightarrow>
               Inr (if libres \<noteq> [] then (s_id_sala s, s_nombre s, s_cupo s, libres) # l else l)))"

section \<open>Registering a reservation\<close>

definition luego ::
  "msg list \<times> 'a flujo \<Rightarrow> ('a \<Rightarrow> entrada \<Rightarrow> msg list \<times> 'b flujo) \<Rightarrow> msg list \<times> 'b flujo" where
  \<comment> \<open>sequencing: the rest of the function runs on the value of the block before it; a
      return or an exception of that block ends the function\<close>
  "luego p k =
     (case snd p of
        Valor v ins \<Rightarrow> emite (fst p) (k v ins)
      | Retorno ins \<Rightarrow> (fst p, Retorno ins)
      | Lanza e \<Rightarrow> (fst p, Lanza e))"

fun pedir_cliente :: "cliente list \<Rightarrow> entrada \<Rightarrow> msg list \<times> int flujo" where
  \<comment> \<open>the loop of lines 160 to 170\<close>
  "pedir_cliente cs [] = ([], Lanza EOFError)"
| "pedir_cliente cs (x # ins) =
     (case py_int x of
        None \<Rightarrow> emite [ClaveInvalida] (pedir_cliente cs ins)
      | Some id_cliente \<Rightarrow>
          if id_cliente = 0 then ([], Retorno ins)
          else if validar_clave_cliente id_cliente cs then ([], Valor id_cliente ins)
          else emite [ClienteNoEncontrado] (pedir_cliente cs ins))"

fun pedir_fecha :: "date \<Rightarrow> entrada \<Rightarrow> msg list \<times> date flujo" where
  \<comment> \<open>the loop of lines 172 to 176\<close>
  "pedir_fecha hoy [] = ([], Lanza EOFError)"
| "pedir_fecha hoy (x # ins) =
     (case validar_fecha_simple hoy (strip x) of
        (ms, None) \<Rightarrow> emite ms (pedir_fecha hoy ins)
      | (ms, Some fecha) \<Rightarrow> (ms, Valor fecha ins))"

fun elegir_sala_turno :: "db \<Rightarrow> date \<Rightarrow> entrada \<Rightarrow> msg list \<times> (int \<times> string) flujo" where
  \<comment> \<open>the loop of lines 199 to 210; a ValueError of \<open>int\<close> leaves the line of the shift unread\<close>
  "elegir_sala_turno bd fecha [] = ([], Lanza EOFError)"
| "elegir_sala_turno bd fecha (x # ins) =
     (case py_int x of
        None \<Rightarrow> emite [SeleccionInvalida] (elegir_sala_turno bd fecha ins)
      | Some id_sala \<Rightarrow>
          (case ins of
             [] \<Rightarrow> ([], Lanza EOFError)
           | y # rest \<Rightarrow>
               if lower y \<notin> set TURNOS
               then emite [SeleccionInvalida] (elegir_sala_turno bd fecha rest)
               else
                 (case sala_disponible bd id_sala fecha (lower y) of
                    Inl e \<Rightarrow> ([], Lanza e)
                  | Inr libre \<Rightarrow>
                      if \<not> libre then emite [SalaOcupada] (elegir_sala_turno bd fecha rest)
                      else ([], Valor (id_sala, lower y) rest))))"

fun pedir_evento :: "entrada \<Rightarrow> msg list \<times> string flujo" where
  \<comment> \<open>the loop of lines 212 to 216\<close>
  "pedir_evento [] = ([], Lanza EOFError)"
| "pedir_evento (x # ins) =
     (if validar_evento (strip x) then ([], Valor (strip x) ins)
      else emite [EventoVacio] (pedir_evento ins))"

definition siguiente_folio :: "db \<Rightarrow> int" where
  \<comment> \<open>AUTOINCREMENT: one more than the largest folio the table has ever held\<close>
  "siguiente_folio bd = fold max (map r_folio (reservaciones bd)) (seq_reservaciones bd) + 1"

definition insertar_reservacion ::
  "db \<Rightarrow> int \<Rightarrow> int \<Rightarrow> date \<times> hora \<Rightarrow> string \<Rightarrow> string \<Rightarrow> int \<times> db" where
  \<comment> \<open>the INSERT of line 224 and \<open>lastrowid\<close>\<close>
  "insertar_reservacion bd id_cliente id_sala fecha_hora turno evento =
     (let folio = siguiente_folio bd
      in (folio,
          bd\<lparr>reservaciones := reservaciones bd @
                [\<lparr>r_folio = folio, r_id_cliente = id_cliente, r_id_sala = id_sala,
                  r_fecha_registro = fecha_hora, r_turno = turno, r_evento = evento\<rparr>],
             seq_reservaciones := folio\<rparr>))"

definition nombre_cliente :: "db \<Rightarrow> int \<Rightarrow> string list" where
  \<comment> \<open>the SELECT of line 231\<close>
  "nombre_cliente bd id_cliente =
     map (\<lambda>c. c_nombre c @ '' '' @ c_apellidos c)
       (filter (\<lambda>c. c_id_cliente c = id_cliente) (clientes bd))"

definition nombre_sala :: "db \<Rightarrow> int \<Rightarrow> string list" where
  \<comment> \<open>the SELECT of line 234\<close>
  "nombre_sala bd id_sala = map s_nombre (filter (\<lambda>s. s_id_sala s = id_sala) (salas bd))"

definition guardar_reservacion ::
  "db \<Rightarrow> hora \<Rightarrow> int \<Rightarrow> date \<Rightarrow> int \<Rightarrow> string \<Rightarrow> string \<Rightarrow> entrada \<Rightarrow> msg list \<times> db flujo" where
  \<comment> \<open>lines 218 to 248. The INSERT runs in a transaction that the \<open>with\<close> block commits when
      it ends normally and rolls back when an exception leaves it: the IndexError of
      \<open>[0]\<close> on an empty result is not an \<open>sqlite3.Error\<close>, so it leaves the function and
      the store is as before\<close>
  "guardar_reservacion bd ahora id_cliente fecha id_sala turno evento ins =
     (let fecha_hora = (fecha, ahora);
          (folio, bd') = insertar_reservacion bd id_cliente id_sala fecha_hora turno evento
      in case nombre_cliente bd id_cliente of
           [] \<Rightarrow> ([], Lanza IndexError)
         | cliente # _ \<Rightarrow>
             (case nombre_sala bd id_sala of
                [] \<Rightarrow> ([], Lanza IndexError)
              | sala # _ \<Rightarrow>
                  ([Registrada folio cliente sala fecha turno evento], Valor bd' ins)))"

definition nombrar_y_guardar ::
  "db \<Rightarrow> hora \<Rightarrow> int \<Rightarrow> date \<Rightarrow> int \<Rightarrow> string \<Rightarrow> entrada \<Rightarrow> msg list \<times> db flujo" where
  \<comment> \<open>lines 212 to 248 of \<open>registrar_reservacion\<close>: the event is named, then the reservation
      is stored\<close>
  "nombrar_y_guardar bd ahora id_cliente fecha id_sala turno ins =
     luego (pedir_evento ins) (\<lambda>evento ins.
       guardar_reservacion bd ahora id_cliente fecha id_sala turno evento ins)"

definition elegir_y_guardar ::
  "db \<Rightarrow> hora \<Rightarrow> int \<Rightarrow> date \<Rightarrow> entrada \<Rightarrow> msg list \<times> db flujo" where
  \<comment> \<open>lines 199 to 248 of \<open>registrar_reservacion\<close>: the room and the shift are chosen, then
      the event is named and the reservation stored\<close>
  "elegir_y_guardar bd ahora id_cliente fecha ins =
     luego (elegir_sala_turno bd fecha ins) (\<lambda>(id_sala, turno) ins.
       nombrar_y_guardar bd ahora id_cliente fecha id_sala turno ins)"

definition registrar_reservacion ::
  "date \<Rightarrow> hora \<Rightarrow> db \<Rightarrow> entrada \<Rightarrow> msg list \<times> db flujo" where
  \<comment> \<open>\<open>hoy\<close> is \<open>datetime.date.today()\<close>, \<open>ahora\<close> is \<open>datetime.datetime.now().time()\<close>.
      The result is what was printed and how the function ended: \<open>Valor bd' ins\<close> at its last
      line with the store \<open>bd'\<close>, \<open>Retorno ins\<close> at a \<open>return\<close> and \<open>Lanza e\<close> with an
      exception, the store as it was in both\<close>
  "registrar_reservacion hoy ahora bd ins =
     (if clientes bd = [] then ([NoHayClientes], Retorno ins)
      else emite [TablaClientes]
        (luego (pedir_cliente (clientes bd) ins) (\<lambda>id_cliente ins.
         luego (pedir_fecha hoy ins) (\<lambda>fecha ins.
           if salas bd = [] then ([NoHaySalas], Retorno ins)
           else
             (case disponible_salas bd fecha (salas bd) of
                Inl e \<Rightarrow> ([], Lanza e)
              | Inr disponibles \<Rightarrow>
                  if disponibles = [] then ([NoHaySalasDisponibles], Retorno ins)
                  else emite [TablaSalas disponibles]
                    (elegir_y_guardar bd ahora id_cliente fecha ins))))))"

definition almacen :: "db \<Rightarrow> msg list \<times> db flujo \<Rightarrow> db" where
  \<comment> \<open>the store after a call that started on \<open>bd\<close>\<close>
  "almacen bd res = (case snd res of Valor bd' _ \<Rightarrow> bd' | _ \<Rightarrow> bd)"

section \<open>Editing the name of an event\<close>

definition reservaciones_de_fecha :: "db \<Rightarrow> date \<Rightarrow> (int \<times> string \<times> date \<times> hora) list" where
  \<comment> \<open>the SELECT of line 263, ordered by \<open>fecha_registro\<close>: the order of the stored texts
      is that of the date, then the time of day\<close>
  "reservaciones_de_fecha bd f =
     map (\<lambda>r. (r_folio r, r_evento r, r_fecha_registro r))
       (sort_key r_fecha_registro
          (filter (\<lambda>r. DATE (r_fecha_registro r) = Some f) (reservaciones bd)))"

fun pedir_folio ::
  "(int \<times> string \<times> date \<times> hora) list \<Rightarrow> entrada \<Rightarrow> msg list \<times> int flujo" where
  \<comment> \<open>the loop of lines 281 to 296; the table shows the date that the program reads back
      from \<open>fecha_registro\<close>\<close>
  "pedir_folio rs [] =
     ([TablaRango (map (\<lambda>(f, e, t). (f, e, fst t)) rs), IngreseFolio], Lanza EOFError)"
| "pedir_folio rs (x # ins) =
     emite [TablaRango (map (\<lambda>(f, e, t). (f, e, fst t)) rs), IngreseFolio]
       (case py_int x of
          None \<Rightarrow> emite [FolioInvalido] (pedir_folio rs ins)
        | Some folio \<Rightarrow>
            if folio = 0 then ([Cancelada], Retorno ins)
            else if list_ex (\<lambda>r. fst r = folio) rs then ([], Valor folio ins)
            else emite [FolioNoEncontrado] (pedir_folio rs ins))"

fun pedir_nuevo_evento :: "entrada \<Rightarrow> msg list \<times> string flujo" where
  \<comment> \<open>the loop of lines 298 to 302\<close>
  "pedir_nuevo_evento [] = ([], Lanza EOFError)"
| "pedir_nuevo_evento (x # ins) =
     (if strip x \<noteq> [] then ([], Valor (strip x) ins)
      else emite [EventoVacioEdicion] (pedir_nuevo_evento ins))"

definition actualizar_evento :: "db \<Rightarrow> string \<Rightarrow> int \<Rightarrow> db" where
  \<comment> \<open>the UPDATE of line 304\<close>
  "actualizar_evento bd nuevo_evento folio =
     bd\<lparr>reservaciones :=
          map (\<lambda>r. if r_folio r = folio then r\<lparr>r_evento := nuevo_evento\<rparr> else r)
            (reservaciones bd)\<rparr>"

definition reservaciones_en_rango ::
  "db \<Rightarrow> date \<Rightarrow> date \<Rightarrow> (int \<times> string \<times> date \<times> hora) list" where
  \<comment> \<open>lines 260 to 268: the rows of every date from \<open>fi\<close> to \<open>ff\<close>, date after date; the
      dates \<open>fi + i\<close> lie between \<open>fi\<close> and \<open>ff\<close>, so none overflows\<close>
  "reservaciones_en_rango bd fi ff =
     (let rango_fechas = map (\<lambda>i. fi + int i) [0 ..< nat (days_between ff fi + 1)]
      in concat (map (reservaciones_de_fecha bd) rango_fechas))"

definition renombrar :: "db \<Rightarrow> int \<Rightarrow> entrada \<Rightarrow> msg list \<times> db flujo" where
  \<comment> \<open>lines 298 to 305 of \<open>editar_evento\<close>: the new name is asked for, then stored\<close>
  "renombrar bd folio ins =
     luego (pedir_nuevo_evento ins) (\<lambda>nuevo_evento ins.
       ([Actualizado], Valor (actualizar_evento bd nuevo_evento folio) ins))"

definition editar_evento :: "db \<Rightarrow> entrada \<Rightarrow> msg list \<times> db flujo" where
  \<comment> \<open>both lines are read before either is parsed\<close>
  "editar_evento bd ins =
     (case ins of
        [] \<Rightarrow> ([], Lanza EOFError)
      | [fi_str] \<Rightarrow> ([], Lanza EOFError)
      | fi_str # ff_str # ins \<Rightarrow>
          (case strptime fi_str of
             None \<Rightarrow> ([FechasInvalidas], Retorno ins)
           | Some fi \<Rightarrow>
               (case strptime ff_str of
                  None \<Rightarrow> ([FechasInvalidas], Retorno ins)
                | Some ff \<Rightarrow>
                    if reservaciones_en_rango bd fi ff = [] then ([NoHayEnRango], Retorno ins)
                    else
                      luego (pedir_folio (reservaciones_en_rango bd fi ff) ins) (\<lambda>folio ins.
                        renombrar bd folio ins))))"

section \<open>Consulting the reservations of a date\<close>

definition registros ::
  "db \<Rightarrow> date \<Rightarrow> (int \<times> string \<times> string \<times> string \<times> string) list" where
  \<comment> \<open>the SELECT of line 319: folio, client, room, shift, event, ordered by the text of the
      shift. The store does not fix the order of rows with equal shifts; the model leaves them
      in the order of the join\<close>
  "registros bd fecha =
     sort_key (\<lambda>(folio, cliente, sala, turno, evento). turno)
       [(r_folio r, c_nombre c @ '' '' @ c_apellidos c, s_nombre s, r_turno r, r_evento r).
          r \<leftarrow> reservaciones bd,
          c \<leftarrow> clientes bd, r_id_cliente r = c_id_cliente c,
          s \<leftarrow> salas bd, r_id_sala r = s_id_sala s,
          DATE (r_fecha_registro r) = Some fecha]"

definition consultar_reservaciones :: "date \<Rightarrow> db \<Rightarrow> entrada \<Rightarrow> msg list \<times> unit flujo" where
  "consultar_reservaciones hoy bd ins =
     (case ins of
        [] \<Rightarrow> ([], Lanza EOFError)
      | x # ins \<Rightarrow>
          (case (if strip x = [] then Some hoy else strptime (strip x)) of
             None \<Rightarrow> ([FechaInvalida], Retorno ins)
           | Some fecha \<Rightarrow>
               if registros bd fecha = [] then ([NoHayEnFecha], Retorno ins)
               else
                 (case ins of
                    [] \<Rightarrow> ([TablaConsulta (registros bd fecha)], Lanza EOFError)
                  | opcion # ins \<Rightarrow>
                      if lower opcion = ''s''
                      then ([TablaConsulta (registros bd fecha),
                             Exportado fecha (registros bd fecha)], Valor () ins)
                      else ([TablaConsulta (registros bd fecha)], Valor () ins))))"

section \<open>Slots and sample stores\<close>

definition ranura :: "reservacion \<Rightarrow> int \<times> date \<times> string" where
  \<comment> \<open>the slot of a reservation: room, reserved date, shift\<close>
  "ranura r = (r_id_sala r, fst (r_fecha_registro r), r_turno r)"

definition ranuras :: "db \<Rightarrow> (int \<times> date \<times> string) list" where
  "ranuras bd = map ranura (reservaciones bd)"

definition bd0 :: db where
  \<comment> \<open>one client, one room, no reservation\<close>
  "bd0 = \<lparr>clientes = [\<lparr>c_id_cliente = 1, c_nombre = ''Ana'', c_apellidos = ''Ruiz''\<rparr>],
          salas = [\<lparr>s_id_sala = 1, s_nombre = ''A'', s_cupo = 5\<rparr>],
          reservaciones = [], seq_reservaciones = 0\<rparr>"

definition bd1 :: db where
  \<comment> \<open>\<open>bd0\<close> after the room is reserved on 2024-06-13 in the afternoon\<close>
  "bd1 = bd0\<lparr>reservaciones :=
               [\<lparr>r_folio = 1, r_id_cliente = 1, r_id_sala = 1,
                 r_fecha_registro = (739050, 100), r_turno = ''tarde'',
                 r_evento = ''Kickoff''\<rparr>],
             seq_reservaciones := 1\<rparr>"

section \<open>Reachable stores\<close>

text \<open>
  The stores that the program can reach: it starts without reservations; reservations are
  registered and events renamed, on any input and at any time; clients and rooms are
  registered by functions that do not touch the reservations.
\<close>

inductive alcanzable :: "db \<Rightarrow> bool" where
  inicial: "reservaciones bd = [] \<Longrightarrow> alcanzable bd"
| registra: "alcanzable bd \<Longrightarrow> alcanzable (almacen bd (registrar_reservacion hoy ahora bd ins))"
| edita: "alcanzable bd \<Longrightarrow> alcanzable (almacen bd (editar_evento bd ins))"
| catalogo: "alcanzable bd \<Longrightarrow> alcanzable (bd\<lparr>clientes := cs, salas := ss\<rparr>)"

section \<open>The order of the shifts in a consultation\<close>

definition turno_de :: "int \<times> string \<times> string \<times> string \<times> string \<Rightarrow> string" where
  \<comment> \<open>the shift of a row of \<open>registros\<close>\<close>
  "turno_de row = (case row of (folio, cliente, sala, turno, evento) \<Rightarrow> turno)"

definition orden_del_dia :: "string \<Rightarrow> nat" where
  \<comment> \<open>the order of the day, as the specification words it: morning, then afternoon, then
      evening\<close>
  "orden_del_dia turno = (if turno = manana then 0 else if turno = ''tarde'' then 1 else 2)"

definition bd2 :: db where
  \<comment> \<open>\<open>bd1\<close> after the same room is reserved on the same date in the evening\<close>
  "bd2 = bd1\<lparr>reservaciones :=
               [\<lparr>r_folio = 1, r_id_cliente = 1, r_id_sala = 1,
                 r_fecha_registro = (739050, 100), r_turno = ''tarde'',
                 r_evento = ''Kickoff''\<rparr>,
                \<lparr>r_folio = 2, r_id_cliente = 1, r_id_sala = 1,
                 r_fecha_registro = (739050, 200), r_turno = ''noche'',
                 r_evento = ''X''\<rparr>],
              seq_reservaciones := 2\<rparr>"

section \<open>More sample stores\<close>

definition bd3 :: db where
  \<comment> \<open>\<open>bd2\<close> after the same room is reserved on the same date in the morning: the only room
      has no free shift on 2024-06-13\<close>
  "bd3 = bd2\<lparr>reservaciones :=
               [\<lparr>r_folio = 1, r_id_cliente = 1, r_id_sala = 1,
                 r_fecha_registro = (739050, 100), r_turno = ''tarde'',
                 r_evento = ''Kickoff''\<rparr>,
                \<lparr>r_folio = 2, r_id_cliente = 1, r_id_sala = 1,
                 r_fecha_registro = (739050, 200), r_turno = ''noche'',
                 r_evento = ''X''\<rparr>,
                \<lparr>r_folio = 3, r_id_cliente = 1, r_id_sala = 1,
                 r_fecha_registro = (739050, 300), r_turno = manana,
                 r_evento = ''Y''\<rparr>],
              seq_reservaciones := 3\<rparr>"

definition MEDIANOCHE :: hora where
  \<comment> \<open>the time of day 23:59:59.999500\<close>
  "MEDIANOCHE = 86399999500"

definition bd_medianoche :: db where
  \<comment> \<open>\<open>bd0\<close> after the room is reserved on Saturday 2024-06-29 (ordinal 739066) in the
      afternoon, by a registration made at 23:59:59.9995\<close>
  "bd_medianoche =
     bd0\<lparr>reservaciones :=
           [\<lparr>r_folio = 1, r_id_cliente = 1, r_id_sala = 1,
             r_fecha_registro = (739066, MEDIANOCHE), r_turno = ''tarde'',
             r_evento = ''Kickoff''\<rparr>],
         seq_reservaciones := 1\<rparr>"

definition bd_doble :: db where
  \<comment> \<open>\<open>bd_medianoche\<close> after the same room is reserved again on the same date in the same
      shift\<close>
  "bd_doble =
     bd0\<lparr>reservaciones :=
           [\<lparr>r_folio = 1, r_id_cliente = 1, r_id_sala = 1,
             r_fecha_registro = (739066, MEDIANOCHE), r_turno = ''tarde'',
             r_evento = ''Kickoff''\<rparr>,
            \<lparr>r_folio = 2, r_id_cliente = 1, r_id_sala = 1,
             r_fecha_registro = (739066, 100), r_turno = ''tarde'',
             r_evento = ''X''\<rparr>],
         seq_reservaciones := 2\<rparr>"

definition bd_sin_clientes :: db where
  \<comment> \<open>one room, no client, no reservation\<close>
  "bd_sin_clientes = bd0\<lparr>clientes := []\<rparr>"

definition en_su_fecha :: "reservacion \<Rightarrow> bool" where
  \<comment> \<open>the storage engine dates the stored \<open>fecha_registro\<close> to the reserved date\<close>
  "en_su_fecha r = (DATE (r_fecha_registro r) = Some (fst (r_fecha_registro r)))"

section \<open>The failures that a registration reports\<close>

datatype error_kind = UnknownClient | UnknownRoom | BlankEventName | ShiftOccupied

fun falla_de :: "msg \<Rightarrow> error_kind option" where
  \<comment> \<open>the failure that a message of \<open>registrar_reservacion\<close> reports: lines 170, 206 and
      216; no message of the function reports a room that does not exist\<close>
  "falla_de ClienteNoEncontrado = Some UnknownClient"
| "falla_de SalaOcupada = Some ShiftOccupied"
| "falla_de EventoVacio = Some BlankEventName"
| "falla_de _ = None"

fun primera_falla :: "msg list \<Rightarrow> error_kind option" where
  \<comment> \<open>the first failure reported in what was printed\<close>
  "primera_falla [] = None"
| "primera_falla (m # ms) = (case falla_de m of Some k \<Rightarrow> Some k | None \<Rightarrow> primera_falla ms)"

definition primera_falla_spec ::
  "db \<Rightarrow> int \<Rightarrow> int \<Rightarrow> date \<Rightarrow> string \<Rightarrow> string \<Rightarrow> error_kind option" where
  \<comment> \<open>the order of the checks as the specification words it: client, room, event name,
      slot; the first that fails wins\<close>
  "primera_falla_spec bd clientId roomId fecha shift eventName =
     (if clientId \<notin> set (map c_id_cliente (clientes bd)) then Some UnknownClient
      else if roomId \<notin> set (map s_id_sala (salas bd)) then Some UnknownRoom
      else if strip eventName = [] then Some BlankEventName
      else if (roomId, fecha, shift) \<in> set (ranuras bd) then Some ShiftOccupied
      else None)"

section \<open>Facts about the console combinators, dates and text\<close>

lemma emite_nil: "emite [] p = p"
  by (simp add: emite_def)

lemma emite_emite: "emite a (emite b p) = emite (a @ b) p"
  by (simp add: emite_def)

lemma fst_emite: "fst (emite ms p) = ms @ fst p"
  by (simp add: emite_def)

lemma snd_emite: "snd (emite ms p) = snd p"
  by (simp add: emite_def)

lemma luego_emite: "luego (emite ms p) k = emite ms (luego p k)"
  by (cases p) (simp add: luego_def emite_def split: flujo.splits)

lemma days_before_year_bounds:
  assumes "1 \<le> y" "y \<le> 9999"
  shows "0 \<le> days_before_year y" "days_before_year y + 365 + (if is_leap y then 1 else 0) \<le> 3652059"
proof -
  define z where "z = y - 1"
  define a where "a = z div 4"
  define b where "b = z div 100"
  define c where "c = z div 400"
  have z: "0 \<le> z" "z \<le> 9998" using assms by (simp_all add: z_def)
  have a1: "0 \<le> a" using z by (simp add: a_def)
  have "a \<le> 9998 div 4" unfolding a_def using z(2) by (rule zdiv_mono1) simp
  then have a2: "a \<le> 2499" by simp
  have a3: "b \<le> a" unfolding a_def b_def using z(1) by (rule zdiv_mono2) simp_all
  have a4: "0 \<le> c" using z by (simp add: c_def)
  have "c \<le> 9998 div 400" unfolding c_def using z(2) by (rule zdiv_mono1) simp
  then have a5: "c \<le> 24" by simp
  have a6: "0 \<le> b" using z by (simp add: b_def)
  have d: "days_before_year y = z * 365 + a - b + c"
    by (simp add: days_before_year_def z_def a_def b_def c_def)
  show "0 \<le> days_before_year y" unfolding d using a1 a3 a4 z by linarith
  show "days_before_year y + 365 + (if is_leap y then 1 else 0) \<le> 3652059"
  proof (cases "y = 9999")
    case True
    then show ?thesis by (simp add: days_before_year_def is_leap_def)
  next
    case False
    with assms have "z \<le> 9997" by (simp add: z_def)
    then show ?thesis unfolding d using a2 a5 a6 by (simp split: if_splits)
  qed
qed

lemma days_in_year_bounds:
  assumes "1 \<le> m" "m \<le> 12" "1 \<le> d" "d \<le> days_in_month y m"
  shows "1 \<le> days_before_month y m + d"
        "days_before_month y m + d \<le> 365 + (if is_leap y then 1 else 0)"
proof -
  from assms have m: "m = 1 \<or> m = 2 \<or> m = 3 \<or> m = 4 \<or> m = 5 \<or> m = 6 \<or> m = 7 \<or> m = 8 \<or> m = 9
      \<or> m = 10 \<or> m = 11 \<or> m = 12" by arith
  then show "1 \<le> days_before_month y m + d"
    using assms(3) by (elim disjE) (simp_all add: days_before_month_def)
  from m show "days_before_month y m + d \<le> 365 + (if is_leap y then 1 else 0)"
    using assms(4) by (elim disjE) (simp_all add: days_before_month_def days_in_month_def split: if_splits)
qed

lemma ymd2ord_valid: "ymd2ord y m d = Some n \<Longrightarrow> valid_date n"
proof -
  assume a: "ymd2ord y m d = Some n"
  then have b: "1 \<le> y" "y \<le> 9999" "1 \<le> m" "m \<le> 12" "1 \<le> d" "d \<le> days_in_month y m"
    and n: "n = days_before_year y + days_before_month y m + d"
    by (simp_all add: ymd2ord_def split: if_splits)
  from days_before_year_bounds[OF b(1,2)] days_in_year_bounds[OF b(3,4,5,6)]
  show ?thesis unfolding n valid_date_def MINORDINAL_def MAXORDINAL_def
    by (simp split: if_splits)
qed

lemma strptime_valid: "strptime s = Some n \<Longrightarrow> valid_date n"
  unfolding strptime_def
  by (simp split: list.splits prod.splits if_splits add: ymd2ord_valid)

lemma sunday_successor: "valid_date d \<Longrightarrow> weekday d = 6 \<Longrightarrow> add_days d 1 = Inr (d + 1)"
proof -
  assume v: "valid_date d" and w: "weekday d = 6"
  have "d \<noteq> 3652059" using w by (auto simp: weekday_def)
  then show ?thesis using v by (simp add: valid_date_def add_days_def MINORDINAL_def MAXORDINAL_def)
qed

lemma strip_split: "\<exists>w. dropWhile isspace s = strip s @ w"
proof -
  let ?t = "dropWhile isspace s"
  have "rev ?t = takeWhile isspace (rev ?t) @ dropWhile isspace (rev ?t)"
    by simp
  then have "rev (rev ?t) = rev (takeWhile isspace (rev ?t) @ dropWhile isspace (rev ?t))"
    by simp
  then have "?t = rev (dropWhile isspace (rev ?t)) @ rev (takeWhile isspace (rev ?t))"
    by (simp only: rev_rev_ident rev_append)
  then show ?thesis unfolding strip_def by blast
qed

lemma strip_hd: "strip s \<noteq> [] \<Longrightarrow> \<not> isspace (hd (strip s))"
proof -
  assume ne: "strip s \<noteq> []"
  obtain w where w: "dropWhile isspace s = strip s @ w" using strip_split by blast
  with ne have "dropWhile isspace s \<noteq> []" by auto
  then have "\<not> isspace (hd (dropWhile isspace s))" by (rule hd_dropWhile)
  with w ne show ?thesis by simp
qed

lemma strip_last: "strip s \<noteq> [] \<Longrightarrow> \<not> isspace (last (strip s))"
proof -
  assume ne: "strip s \<noteq> []"
  then have "dropWhile isspace (rev (dropWhile isspace s)) \<noteq> []" by (simp add: strip_def)
  then have "\<not> isspace (hd (dropWhile isspace (rev (dropWhile isspace s))))" by (rule hd_dropWhile)
  then show ?thesis using ne by (simp add: strip_def last_rev)
qed

lemma strip_strip: "strip (strip s) = strip s"
proof (cases "strip s = []")
  case True
  have "strip [] = []" by (simp add: strip_def)
  with True show ?thesis by simp
next
  case False
  then obtain c u where u: "strip s = c # u" by (cases "strip s") auto
  with strip_hd[of s] have c: "\<not> isspace c" by simp
  then have a: "dropWhile isspace (strip s) = strip s" using u by simp
  from False strip_last[of s] have "\<not> isspace (hd (rev (strip s)))" by (simp add: hd_rev)
  moreover have "rev (strip s) \<noteq> []" using False by simp
  ultimately have "dropWhile isspace (rev (strip s)) = rev (strip s)"
    by (cases "rev (strip s)") auto
  with a show ?thesis by (simp add: strip_def[of "strip s"])
qed

lemmas strptime_defs = strptime_def re_m_def re_d_def re_Y_def re_dash_def nonzero_digit_def
  isdigit_def digit_val_def decimal_def ymd2ord_def days_in_month_def days_before_year_def
  days_before_month_def is_leap_def

lemma strptime_jun11: "strptime ''06-11-2024'' = Some 739048"
  by (simp add: strptime_defs)

lemma strptime_jun13: "strptime ''06-13-2024'' = Some 739050"
  by (simp add: strptime_defs)

lemma strptime_jun16: "strptime ''06-16-2024'' = Some 739053"
  by (simp add: strptime_defs)

lemma lower_s: "lower ''s'' = ''s''" "lower ''S'' = ''s''" "lower ''n'' \<noteq> ''s''"
  by code_simp+

section \<open>Lead time\<close>

text \<open>
  C4. A date that parses and lies less than two days after today is refused by both
  validators with the lead-time message and nothing else (lines 83 to 85 and 141 to 143),
  whatever the lines still to be read; a date that parses and lies two days or more after
  today gets the lead-time message from neither.
\<close>

theorem lead_time_enforced:
  assumes "strptime fecha_str = Some d"
  shows "if days_between d hoy < 2
         then validar_fecha hoy fecha_str ins = ([DebeReservar], Valor None ins)
              \<and> validar_fecha_simple hoy fecha_str = ([DebeReservarse], None)
         else DebeReservar \<notin> set (fst (validar_fecha hoy fecha_str ins))
              \<and> DebeReservarse \<notin> set (fst (validar_fecha_simple hoy fecha_str))"
  using assms
  by (simp add: validar_fecha_simple_def split: sum.splits list.splits)

theorem lead_time_enforced_witness:
  "strptime ''06-11-2024'' = Some 739048 \<and> days_between 739048 739047 < 2
   \<and> validar_fecha 739047 ''06-11-2024'' [] = ([DebeReservar], Valor None [])
   \<and> validar_fecha_simple 739047 ''06-11-2024'' = ([DebeReservarse], None)
   \<and> strptime ''06-13-2024'' = Some 739050 \<and> \<not> days_between 739050 739047 < 2
   \<and> DebeReservar \<notin> set (fst (validar_fecha 739047 ''06-13-2024'' []))
   \<and> DebeReservarse \<notin> set (fst (validar_fecha_simple 739047 ''06-13-2024''))"
  using lead_time_enforced[OF strptime_jun11, of 739047 "[]"]
        lead_time_enforced[OF strptime_jun13, of 739047 "[]"]
  by (simp add: strptime_jun11 strptime_jun13 days_between_def)

section \<open>Sundays\<close>

text \<open>
  C5. For a date that parses, lies two days or more after today and is a Sunday: the strict
  validator refuses it with the Sunday message (lines 145 to 147); the interactive validator
  proposes the next day and reads one line, and returns the next day when that line, in lower
  case, is \<open>s\<close>, and no date otherwise (lines 86 to 93).
\<close>

theorem sunday_policy:
  assumes "strptime fecha_str = Some d" and "2 \<le> days_between d hoy" and "weekday d = 6"
  shows "validar_fecha_simple hoy fecha_str = ([DomingoNoPermitido], None)
       \<and> validar_fecha hoy fecha_str (aceptar # ins) =
           ([DomingoSugerido (d + 1)],
            Valor (if lower aceptar = ''s'' then Some (d + 1) else None) ins)"
  using assms sunday_successor[OF strptime_valid[OF assms(1)] assms(3)]
  by (simp add: validar_fecha_simple_def)

theorem sunday_policy_witness:
  "strptime ''06-16-2024'' = Some 739053 \<and> 2 \<le> days_between 739053 739047
   \<and> weekday 739053 = 6
   \<and> validar_fecha_simple 739047 ''06-16-2024'' = ([DomingoNoPermitido], None)
   \<and> validar_fecha 739047 ''06-16-2024'' [''S'', ''x''] =
        ([DomingoSugerido 739054], Valor (Some 739054) [''x''])
   \<and> validar_fecha 739047 ''06-16-2024'' [''n'', ''x''] =
        ([DomingoSugerido 739054], Valor None [''x''])"
proof -
  have a: "2 \<le> days_between 739053 739047" by (simp add: days_between_def)
  have b: "weekday 739053 = 6" by (simp add: weekday_def)
  from sunday_policy[OF strptime_jun16 a b, of "''S''" "[''x'']"]
       sunday_policy[OF strptime_jun16 a b, of "''n''" "[''x'']"]
  show ?thesis using a b by (simp add: strptime_jun16 lower_s)
qed

text \<open>
  C10. A date that the interactive validator returns is not a Sunday and lies two days or
  more after today, also when it is the proposed day after a Sunday, which the function
  returns without checking it again.
\<close>

theorem returned_date_ok:
  assumes "validar_fecha hoy fecha_str ins = (ms, Valor (Some f) rest)"
  shows "weekday f \<noteq> 6 \<and> 2 \<le> days_between f hoy"
proof (cases "strptime fecha_str")
  case None
  with assms show ?thesis by simp
next
  case (Some d)
  show ?thesis
  proof (cases "weekday d = 6")
    case True
    from assms Some have far: "2 \<le> days_between d hoy" by (simp split: if_splits)
    from sunday_successor[OF strptime_valid[OF Some] True] assms Some True far
    have "f = d + 1" by (simp split: list.splits if_splits)
    with True far show ?thesis by (simp add: weekday_def days_between_def) presburger
  next
    case False
    with assms Some show ?thesis by (simp split: if_splits)
  qed
qed

theorem returned_date_ok_witness:
  "validar_fecha 739047 ''06-16-2024'' [''s''] = ([DomingoSugerido 739054], Valor (Some 739054) [])
   \<and> weekday 739054 \<noteq> 6 \<and> 2 \<le> days_between 739054 739047"
proof -
  have a: "validar_fecha 739047 ''06-16-2024'' [''s''] =
             ([DomingoSugerido 739054], Valor (Some 739054) [])"
    by (simp add: strptime_jun16 days_between_def weekday_def add_days_def valid_date_def
        MINORDINAL_def MAXORDINAL_def lower_s)
  from returned_date_ok[OF a] a show ?thesis by simp
qed

lemma py_int_1: "py_int ''1'' = Some 1"
  by code_simp

lemma py_int_7: "py_int ''7'' = Some 7"
  by code_simp

lemma py_int_0: "py_int ''0'' = Some 0"
  by code_simp

lemma py_int_blanco: "py_int ''  '' = None"
  by code_simp

lemma strip_ejemplos:
  "strip ''06-13-2024'' = ''06-13-2024''" "strip ''Kickoff'' = ''Kickoff''" "strip ''  '' = []"
  by (simp_all add: strip_def isspace_def)

lemma strip_ejemplos2:
  "strip ''Team Sync'' = ''Team Sync''" "strip '''' = []" "strip ''X'' = ''X''"
  "strip ''06-29-2024'' = ''06-29-2024''"
  by (simp_all add: strip_def isspace_def)

lemma strip_Nil: "strip [] = []"
  by (simp add: strip_def)

lemma lower_turnos: "lower ''TARDE'' = ''tarde''" "lower ''tarde'' = ''tarde''"
  "lower ''noche'' = ''noche''"
  by code_simp+

lemma strptime_jun14: "strptime ''06-14-2024'' = Some 739051"
  by (simp add: strptime_defs)

lemma strptime_jun29: "strptime ''06-29-2024'' = Some 739066"
  by (simp add: strptime_defs)

lemma ord2ymd_ejemplos:
  "ord2ymd 739050 = (2024, 6, 13)" "ymd2ord 2024 6 13 = Some 739050"
  "ord2ymd 739066 = (2024, 6, 29)" "ymd2ord 2024 6 29 = Some 739066"
  "ord2ymd 3652059 = (9999, 12, 31)" "ymd2ord 9999 12 31 = Some 3652059"
  by code_simp+

lemma DATE_en_su_fecha:
  "day_of_month f \<le> 28 \<or> h < 86399999500 \<Longrightarrow> DATE (f, h) = Some f"
  by (auto simp: DATE_def)

lemma day_of_month_jun13: "day_of_month 739050 = 13"
  by (simp add: day_of_month_def ord2ymd_def Let_def)

lemma day_of_month_jun29: "day_of_month 739066 = 29"
  by (simp add: day_of_month_def ord2ymd_def Let_def)

lemma DATE_jun13: "DATE (739050, h) = Some 739050"
  by (simp add: DATE_def day_of_month_jun13)

lemma DATE_jun29: "DATE (739066, 100) = Some 739066" "DATE (739066, MEDIANOCHE) = Some 739067"
  by (simp_all add: DATE_def day_of_month_jun29 MEDIANOCHE_def MAXORDINAL_def)

lemma lower_manana: "lower manana = manana"
  by code_simp

lemmas run_defs = registrar_reservacion_def elegir_y_guardar_def nombrar_y_guardar_def luego_def emite_def validar_clave_cliente_def
  validar_fecha_simple_def days_between_def weekday_def sala_disponible_def sqlite_int_def
  existente_def TURNOS_def manana_def validar_evento_def guardar_reservacion_def
  insertar_reservacion_def siguiente_folio_def nombre_cliente_def nombre_sala_def

lemma upt_2: "[0..<2] = [0, Suc 0]"
  by (simp add: upt_rec)

section \<open>Runs on the sample stores\<close>

lemma registrar_bd0:
  "registrar_reservacion 739047 100 bd0 [''1'', ''06-13-2024'', ''1'', ''TARDE'', ''Kickoff'']
   = ([TablaClientes, TablaSalas [(1, ''A'', 5, TURNOS)],
       Registrada 1 ''Ana Ruiz'' ''A'' 739050 ''tarde'' ''Kickoff''], Valor bd1 [])"
  by (simp add: run_defs bd0_def bd1_def py_int_1 strip_ejemplos strptime_jun13 lower_turnos)

lemma almacen_registrar_bd0:
  "almacen bd0 (registrar_reservacion 739047 100 bd0
      [''1'', ''06-13-2024'', ''1'', ''TARDE'', ''Kickoff'']) = bd1"
  by (simp add: registrar_bd0 almacen_def)

lemma alcanzable_bd1: "alcanzable bd1"
proof -
  have "alcanzable bd0" by (rule alcanzable.inicial) (simp add: bd0_def)
  from alcanzable.registra[OF this, of 739047 100 "[''1'', ''06-13-2024'', ''1'', ''TARDE'', ''Kickoff'']"]
  show ?thesis by (simp only: almacen_registrar_bd0)
qed

lemma registrar_bd1_ocupada:
  "registrar_reservacion 739047 100 bd1 [''1'', ''06-13-2024'', ''1'', ''TARDE'']
   = ([TablaClientes, TablaSalas [(1, ''A'', 5, [manana, ''noche''])], SalaOcupada],
      Lanza EOFError)"
  by (simp add: run_defs bd0_def bd1_def py_int_1 strip_ejemplos strptime_jun13 lower_turnos
      DATE_jun13)

lemma registrar_bd1_noche:
  "registrar_reservacion 739047 200 bd1 [''1'', ''06-13-2024'', ''1'', ''noche'', ''X'']
   = ([TablaClientes, TablaSalas [(1, ''A'', 5, [manana, ''noche''])],
       Registrada 2 ''Ana Ruiz'' ''A'' 739050 ''noche'' ''X''], Valor bd2 [])"
  by (simp add: run_defs bd0_def bd1_def bd2_def py_int_1 strip_ejemplos strip_ejemplos2
      strptime_jun13 lower_turnos DATE_jun13)

lemma alcanzable_bd2: "alcanzable bd2"
proof -
  from alcanzable.registra[OF alcanzable_bd1, of 739047 200
         "[''1'', ''06-13-2024'', ''1'', ''noche'', ''X'']"]
  show ?thesis by (simp add: registrar_bd1_noche almacen_def)
qed

lemma registrar_bd2_manana:
  "registrar_reservacion 739047 300 bd2 [''1'', ''06-13-2024'', ''1'', manana, ''Y'']
   = ([TablaClientes, TablaSalas [(1, ''A'', 5, [manana])],
       Registrada 3 ''Ana Ruiz'' ''A'' 739050 manana ''Y''], Valor bd3 [])"
proof -
  have s: "strip ''Y'' = ''Y''" by (simp add: strip_def isspace_def)
  have l: "lower (''ma'' @ [CHR 0xF1] @ ''ana'') = ''ma'' @ [CHR 0xF1] @ ''ana''"
    using lower_manana by (simp add: manana_def)
  show ?thesis
    using l
    by (simp add: run_defs bd0_def bd1_def bd2_def bd3_def py_int_1 strip_ejemplos s
        strptime_jun13 DATE_jun13)
qed

lemma alcanzable_bd3: "alcanzable bd3"
proof -
  from alcanzable.registra[OF alcanzable_bd2, of 739047 300
         "[''1'', ''06-13-2024'', ''1'', manana, ''Y'']"]
  show ?thesis by (simp add: registrar_bd2_manana almacen_def)
qed

lemma registrar_bd3_lleno:
  "registrar_reservacion 739047 400 bd3 [''1'', ''06-13-2024'', ''1'', ''tarde'']
   = ([TablaClientes, NoHaySalasDisponibles], Retorno [''1'', ''tarde''])"
  by (simp add: run_defs bd0_def bd1_def bd2_def bd3_def py_int_1 strip_ejemplos
      strptime_jun13 DATE_jun13)

section \<open>How a registration and an edit end\<close>

lemma snd_luego_Valor:
  "snd (luego p k) = Valor v r \<longleftrightarrow> (\<exists>a i. snd p = Valor a i \<and> snd (k a i) = Valor v r)"
  by (cases p) (auto simp: luego_def emite_def split: flujo.splits)

lemma luego_Valor: "luego (ms, Valor v i) k = emite ms (k v i)"
  by (simp add: luego_def)

lemma sala_disponible_Inr:
  "sala_disponible bd id_sala fecha turno = Inr libre \<Longrightarrow>
   sqlite_int id_sala \<and> libre = (existente bd id_sala fecha turno = [])"
  by (cases "sqlite_int id_sala") (auto simp: sala_disponible_def)

lemma sala_disponible_sqlite:
  "sqlite_int id_sala \<Longrightarrow>
   sala_disponible bd id_sala fecha turno = Inr (existente bd id_sala fecha turno = [])"
  by (simp add: sala_disponible_def)

lemma elegir_sala_turno_Valor:
  "snd (elegir_sala_turno bd fecha ins) = Valor (id_sala, turno) rest \<Longrightarrow>
   turno \<in> set TURNOS \<and> sala_disponible bd id_sala fecha turno = Inr True"
proof (induction bd fecha ins rule: elegir_sala_turno.induct)
  case (1 bd fecha)
  then show ?case by simp
next
  case (2 bd fecha x ins)
  show ?case
  proof (cases "py_int x")
    case None
    with 2 show ?thesis by (simp add: snd_emite)
  next
    case (Some s)
    show ?thesis
    proof (cases ins)
      case Nil
      with 2 Some show ?thesis by simp
    next
      case (Cons y rest')
      show ?thesis
      proof (cases "lower y \<in> set TURNOS")
        case False
        with 2 Some Cons show ?thesis by (simp add: snd_emite)
      next
        case True
        show ?thesis
        proof (cases "sala_disponible bd s fecha (lower y)")
          case (Inl e)
          with 2 Some Cons True show ?thesis by simp
        next
          case (Inr libre)
          show ?thesis
          proof (cases libre)
            case True
            with 2(4) Some Cons \<open>lower y \<in> set TURNOS\<close> Inr show ?thesis by auto
          next
            case False
            with 2(3)[OF Some Cons _ Inr] 2(4) Some Cons \<open>lower y \<in> set TURNOS\<close> Inr
            show ?thesis by (simp add: snd_emite)
          qed
        qed
      qed
    qed
  qed
qed

lemma pedir_cliente_Valor:
  "snd (pedir_cliente cs ins) = Valor id_cliente rest \<Longrightarrow> validar_clave_cliente id_cliente cs"
  by (induction cs ins rule: pedir_cliente.induct)
     (auto simp: snd_emite split: option.splits if_splits)

lemma pedir_fecha_Valor:
  "snd (pedir_fecha hoy ins) = Valor fecha rest \<Longrightarrow>
   2 \<le> days_between fecha hoy \<and> weekday fecha \<noteq> 6 \<and> valid_date fecha"
proof (induction hoy ins rule: pedir_fecha.induct)
  case (1 hoy)
  then show ?case by simp
next
  case (2 hoy x ins)
  obtain ms r where v: "validar_fecha_simple hoy (strip x) = (ms, r)" by (cases "validar_fecha_simple hoy (strip x)")
  show ?case
  proof (cases r)
    case None
    with 2 v show ?thesis by (simp add: snd_emite)
  next
    case (Some f)
    with 2(2) v have "f = fecha" by simp
    with v Some show ?thesis
      by (auto simp: validar_fecha_simple_def split: option.splits if_splits dest: strptime_valid)
  qed
qed

lemma pedir_evento_Valor:
  "snd (pedir_evento ins) = Valor evento rest \<Longrightarrow> evento \<noteq> [] \<and> strip evento = evento"
  by (induction ins rule: pedir_evento.induct)
     (auto simp: snd_emite validar_evento_def strip_strip split: if_splits)

lemma pedir_nuevo_evento_Valor:
  "snd (pedir_nuevo_evento ins) = Valor evento rest \<Longrightarrow> evento \<noteq> [] \<and> strip evento = evento"
  by (induction ins rule: pedir_nuevo_evento.induct)
     (auto simp: snd_emite strip_strip split: if_splits)

lemma guardar_reservacion_Valor:
  "snd (guardar_reservacion bd ahora id_cliente fecha id_sala turno evento ins) = Valor bd' rest \<Longrightarrow>
   bd' = snd (insertar_reservacion bd id_cliente id_sala (fecha, ahora) turno evento)
   \<and> nombre_cliente bd id_cliente \<noteq> [] \<and> nombre_sala bd id_sala \<noteq> [] \<and> rest = ins"
  by (auto simp: guardar_reservacion_def Let_def split: prod.splits list.splits)

lemma nombrar_y_guardar_Valor:
  assumes "snd (nombrar_y_guardar bd ahora id_cliente fecha id_sala turno ins) = Valor bd' rest"
  shows "\<exists>evento.
           bd' = snd (insertar_reservacion bd id_cliente id_sala (fecha, ahora) turno evento)
         \<and> evento \<noteq> [] \<and> strip evento = evento
         \<and> nombre_cliente bd id_cliente \<noteq> [] \<and> nombre_sala bd id_sala \<noteq> []"
proof -
  from assms obtain e i4 where
    e: "snd (pedir_evento ins) = Valor e i4" and
    k4: "snd (guardar_reservacion bd ahora id_cliente fecha id_sala turno e i4) = Valor bd' rest"
    unfolding nombrar_y_guardar_def snd_luego_Valor by blast
  from pedir_evento_Valor[OF e] guardar_reservacion_Valor[OF k4]
  show ?thesis by blast
qed

lemma elegir_y_guardar_Valor:
  assumes "snd (elegir_y_guardar bd ahora id_cliente fecha ins) = Valor bd' rest"
  shows "\<exists>id_sala turno evento.
           bd' = snd (insertar_reservacion bd id_cliente id_sala (fecha, ahora) turno evento)
         \<and> turno \<in> set TURNOS \<and> sala_disponible bd id_sala fecha turno = Inr True
         \<and> evento \<noteq> [] \<and> strip evento = evento
         \<and> nombre_cliente bd id_cliente \<noteq> [] \<and> nombre_sala bd id_sala \<noteq> []"
proof -
  from assms obtain st i3 where
    st: "snd (elegir_sala_turno bd fecha ins) = Valor st i3" and
    k3: "snd ((\<lambda>(id_sala, turno) ins.
                 nombrar_y_guardar bd ahora id_cliente fecha id_sala turno ins)
              st i3) = Valor bd' rest"
    unfolding elegir_y_guardar_def snd_luego_Valor by blast
  obtain s t where [simp]: "st = (s, t)" by (cases st)
  from k3 have k4: "snd (nombrar_y_guardar bd ahora id_cliente fecha s t i3) = Valor bd' rest"
    by simp
  from elegir_sala_turno_Valor[OF st[simplified]] nombrar_y_guardar_Valor[OF k4]
  show ?thesis by blast
qed

lemma registrar_reservacion_Valor:
  assumes "snd (registrar_reservacion hoy ahora bd ins) = Valor bd' rest"
  shows "\<exists>id_cliente fecha id_sala turno evento.
           bd' = snd (insertar_reservacion bd id_cliente id_sala (fecha, ahora) turno evento)
         \<and> validar_clave_cliente id_cliente (clientes bd)
         \<and> 2 \<le> days_between fecha hoy \<and> weekday fecha \<noteq> 6
         \<and> turno \<in> set TURNOS \<and> sala_disponible bd id_sala fecha turno = Inr True
         \<and> evento \<noteq> [] \<and> strip evento = evento
         \<and> nombre_cliente bd id_cliente \<noteq> [] \<and> nombre_sala bd id_sala \<noteq> []"
proof -
  from assms have ne: "clientes bd \<noteq> []"
    by (auto simp: registrar_reservacion_def)
  with assms obtain c i1 where
    c: "snd (pedir_cliente (clientes bd) ins) = Valor c i1" and
    k1: "snd (luego (pedir_fecha hoy i1) (\<lambda>fecha ins.
           if salas bd = [] then ([NoHaySalas], Retorno ins)
           else
             (case disponible_salas bd fecha (salas bd) of
                Inl e \<Rightarrow> ([], Lanza e)
              | Inr disponibles \<Rightarrow>
                  if disponibles = [] then ([NoHaySalasDisponibles], Retorno ins)
                  else emite [TablaSalas disponibles]
                    (elegir_y_guardar bd ahora c fecha ins)))) = Valor bd' rest"
    by (auto simp: registrar_reservacion_def snd_emite snd_luego_Valor)
  from k1 obtain f i2 where
    f: "snd (pedir_fecha hoy i1) = Valor f i2" and
    k2: "snd (elegir_y_guardar bd ahora c f i2) = Valor bd' rest"
    by (auto simp: snd_luego_Valor snd_emite split: if_splits sum.splits)
  from pedir_cliente_Valor[OF c] pedir_fecha_Valor[OF f] elegir_y_guardar_Valor[OF k2]
  show ?thesis by blast
qed

lemma pedir_folio_Valor:
  "snd (pedir_folio rs ins) = Valor folio rest \<Longrightarrow> folio \<in> fst ` set rs"
  by (induction rs ins rule: pedir_folio.induct)
     (auto simp: snd_emite list_ex_iff split: option.splits if_splits)

lemma reservaciones_de_fecha_folios:
  "fst ` set (reservaciones_de_fecha bd f) \<subseteq> r_folio ` set (reservaciones bd)"
  by (auto simp: reservaciones_de_fecha_def)

lemma reservaciones_en_rango_folios:
  "fst ` set (reservaciones_en_rango bd fi ff) \<subseteq> r_folio ` set (reservaciones bd)"
  using reservaciones_de_fecha_folios[of bd]
  by (auto simp: reservaciones_en_rango_def Let_def)

lemma renombrar_Valor:
  assumes "snd (renombrar bd folio ins) = Valor bd' rest"
  shows "\<exists>nuevo_evento. bd' = actualizar_evento bd nuevo_evento folio
           \<and> nuevo_evento \<noteq> [] \<and> strip nuevo_evento = nuevo_evento"
proof -
  from assms obtain e i2 where
    b: "snd (pedir_nuevo_evento ins) = Valor e i2" and
    c: "bd' = actualizar_evento bd e folio"
    by (auto simp: renombrar_def snd_luego_Valor)
  with pedir_nuevo_evento_Valor[OF b] show ?thesis by blast
qed

lemma editar_evento_Valor:
  assumes "snd (editar_evento bd ins) = Valor bd' rest"
  shows "\<exists>folio nuevo_evento.
           bd' = actualizar_evento bd nuevo_evento folio
         \<and> folio \<in> r_folio ` set (reservaciones bd)
         \<and> nuevo_evento \<noteq> [] \<and> strip nuevo_evento = nuevo_evento"
proof -
  from assms obtain fi_str ff_str i0 where ins: "ins = fi_str # ff_str # i0"
    by (auto simp: editar_evento_def split: list.splits)
  from assms ins obtain fi ff where fi: "strptime fi_str = Some fi" and ff: "strptime ff_str = Some ff"
    by (auto simp: editar_evento_def split: option.splits)
  from assms ins fi ff have
    k: "snd (luego (pedir_folio (reservaciones_en_rango bd fi ff) i0) (\<lambda>folio ins.
              renombrar bd folio ins)) = Valor bd' rest"
    by (auto simp: editar_evento_def split: if_splits)
  then obtain folio i1 where
    a: "snd (pedir_folio (reservaciones_en_rango bd fi ff) i0) = Valor folio i1" and
    b: "snd (renombrar bd folio i1) = Valor bd' rest"
    by (auto simp: snd_luego_Valor)
  from pedir_folio_Valor[OF a] have "folio \<in> r_folio ` set (reservaciones bd)"
    using reservaciones_en_rango_folios[of bd fi ff] by auto
  with renombrar_Valor[OF b] show ?thesis by blast
qed

lemma registrar_hasta_eleccion:
  assumes "py_int cx = Some id_cliente" "id_cliente \<noteq> 0"
      "validar_clave_cliente id_cliente (clientes bd)"
      "validar_fecha_simple hoy (strip fx) = ([], Some fecha)"
      "disponible_salas bd fecha (salas bd) = Inr disponibles" "disponibles \<noteq> []"
  shows "registrar_reservacion hoy ahora bd (cx # fx # ins) =
           emite [TablaClientes, TablaSalas disponibles]
             (elegir_y_guardar bd ahora id_cliente fecha ins)"
proof -
  from assms(3) have c0: "clientes bd \<noteq> []" by (auto simp: validar_clave_cliente_def)
  from assms(5,6) have s0: "salas bd \<noteq> []" by auto
  have c: "pedir_cliente (clientes bd) (cx # fx # ins) = ([], Valor id_cliente (fx # ins))"
    using assms(1,2,3) by simp
  have f: "pedir_fecha hoy (fx # ins) = ([], Valor fecha ins)"
    using assms(4) by simp
  show ?thesis
    unfolding registrar_reservacion_def c luego_Valor f
    using c0 s0 assms(5,6) by (simp add: emite_nil emite_emite)
qed

lemma elegir_y_guardar_ocupada:
  assumes "py_int x = Some id_sala" "lower y \<in> set TURNOS"
      "sala_disponible bd id_sala fecha (lower y) = Inr False"
  shows "elegir_y_guardar bd ahora id_cliente fecha (x # y # ins) =
           emite [SalaOcupada] (elegir_y_guardar bd ahora id_cliente fecha ins)"
proof -
  have e: "elegir_sala_turno bd fecha (x # y # ins) =
             emite [SalaOcupada] (elegir_sala_turno bd fecha ins)"
    using assms by simp
  show ?thesis unfolding elegir_y_guardar_def e luego_emite ..
qed

lemma nombrar_y_guardar_vacio:
  "strip e = [] \<Longrightarrow>
   nombrar_y_guardar bd ahora id_cliente fecha id_sala turno (e # ins) =
     emite [EventoVacio] (nombrar_y_guardar bd ahora id_cliente fecha id_sala turno ins)"
  by (simp add: nombrar_y_guardar_def validar_evento_def luego_emite strip_Nil)

lemma elegir_y_guardar_libre:
  assumes "py_int x = Some id_sala" "lower y \<in> set TURNOS"
      "sala_disponible bd id_sala fecha (lower y) = Inr True"
  shows "elegir_y_guardar bd ahora id_cliente fecha (x # y # ins) =
           nombrar_y_guardar bd ahora id_cliente fecha id_sala (lower y) ins"
  using assms by (simp add: elegir_y_guardar_def luego_Valor emite_nil)

lemma renombrar_vacio:
  "strip e = [] \<Longrightarrow> renombrar bd folio (e # ins) = emite [EventoVacioEdicion] (renombrar bd folio ins)"
  by (simp add: renombrar_def luego_emite strip_Nil)

lemma renombrar_nombre:
  "strip e \<noteq> [] \<Longrightarrow>
   renombrar bd folio (e # ins) = ([Actualizado], Valor (actualizar_evento bd (strip e) folio) ins)"
  by (simp add: renombrar_def luego_Valor emite_nil)

lemma renombrar_fin: "renombrar bd folio [] = ([], Lanza EOFError)"
  by (simp add: renombrar_def luego_def)

lemma editar_hasta_renombrar:
  assumes "strptime fi_str = Some fi" "strptime ff_str = Some ff"
      "py_int fx = Some folio" "folio \<noteq> 0" "folio \<in> fst ` set (reservaciones_en_rango bd fi ff)"
  shows "editar_evento bd (fi_str # ff_str # fx # ins) =
           emite [TablaRango (map (\<lambda>(f, e, t). (f, e, fst t)) (reservaciones_en_rango bd fi ff)),
                  IngreseFolio]
             (renombrar bd folio ins)"
proof -
  from assms(5) have ne: "reservaciones_en_rango bd fi ff \<noteq> []" by auto
  from assms(5) have ex: "list_ex (\<lambda>r. fst r = folio) (reservaciones_en_rango bd fi ff)"
    by (auto simp: list_ex_iff)
  show ?thesis
    using assms(1,2,3,4) ne ex
    by (simp add: editar_evento_def luego_emite luego_Valor emite_nil)
qed

lemma alcanzable_eventos:
  "alcanzable bd \<Longrightarrow> \<forall>r \<in> set (reservaciones bd). r_evento r \<noteq> [] \<and> strip (r_evento r) = r_evento r"
proof (induction rule: alcanzable.induct)
  case (inicial bd)
  then show ?case by simp
next
  case (registra bd hoy ahora ins)
  show ?case
  proof (cases "snd (registrar_reservacion hoy ahora bd ins)")
    case (Valor bd' rest)
    from registrar_reservacion_Valor[OF Valor] Valor registra.IH show ?thesis
      by (auto simp: almacen_def insertar_reservacion_def Let_def)
  qed (use registra.IH in \<open>simp_all add: almacen_def\<close>)
next
  case (edita bd ins)
  show ?case
  proof (cases "snd (editar_evento bd ins)")
    case (Valor bd' rest)
    from editar_evento_Valor[OF Valor] Valor edita.IH show ?thesis
      by (auto simp: almacen_def actualizar_evento_def)
  qed (use edita.IH in \<open>simp_all add: almacen_def\<close>)
next
  case (catalogo bd cs ss)
  then show ?case by simp
qed

lemma rango_bd1: "reservaciones_en_rango bd1 739050 739051 = [(1, ''Kickoff'', (739050, 100))]"
  by (simp add: reservaciones_en_rango_def reservaciones_de_fecha_def days_between_def DATE_jun13
      bd1_def bd0_def upt_2)

lemma disponibles_bd1:
  "disponible_salas bd1 739050 (salas bd1) = Inr [(1, ''A'', 5, [manana, ''noche''])]"
  by (simp add: TURNOS_def sala_disponible_def sqlite_int_def existente_def DATE_jun13 bd1_def
      bd0_def manana_def)

lemma fecha_jun13: "validar_fecha_simple 739047 (strip ''06-13-2024'') = ([], Some 739050)"
  by (simp add: validar_fecha_simple_def strip_ejemplos strptime_jun13 days_between_def
      weekday_def)

lemma cliente_bd1: "validar_clave_cliente 1 (clientes bd1)"
  by (simp add: validar_clave_cliente_def bd1_def bd0_def)

lemma noche_libre_bd1: "sala_disponible bd1 1 739050 (lower ''noche'') = Inr True"
  by (simp add: lower_turnos sala_disponible_def sqlite_int_def existente_def DATE_jun13 bd1_def
      bd0_def)

lemma editar_bd1_vacio:
  "editar_evento bd1 [''06-13-2024'', ''06-14-2024'', ''1'', ''  '']
   = ([TablaRango [(1, ''Kickoff'', 739050)], IngreseFolio, EventoVacioEdicion], Lanza EOFError)"
  by (simp add: editar_evento_def rango_bd1 renombrar_def luego_def emite_def
      strptime_jun13 strptime_jun14 py_int_1 strip_ejemplos)

lemma registrar_bd1_vacio:
  "registrar_reservacion 739047 200 bd1 [''1'', ''06-13-2024'', ''1'', ''noche'', ''  '']
   = ([TablaClientes, TablaSalas [(1, ''A'', 5, [manana, ''noche''])], EventoVacio],
      Lanza EOFError)"
  by (simp add: run_defs bd0_def bd1_def py_int_1 strip_ejemplos strptime_jun13 lower_turnos
      strip_Nil DATE_jun13)

lemma editar_bd1_nombre:
  "editar_evento bd1 [''06-13-2024'', ''06-14-2024'', ''1'', ''Team Sync'']
   = ([TablaRango [(1, ''Kickoff'', 739050)], IngreseFolio, Actualizado],
      Valor (actualizar_evento bd1 ''Team Sync'' 1) [])"
  by (simp add: editar_evento_def rango_bd1 renombrar_def luego_def emite_def
      strptime_jun13 strptime_jun14 py_int_1 strip_ejemplos2)

section \<open>Event names\<close>

text \<open>
  C7. In every store that the program can reach, the event name of every reservation is not
  empty after trimming. When registering, a name that is blank after trimming is refused with
  the message of line 216 and the name is asked for again. When editing, a new name that is
  blank after trimming is refused with the message of line 302 and asked for again; if the
  input ends there, the store is as it was.
\<close>

theorem event_name_not_blank:
  assumes "alcanzable bd"
  shows "(\<forall>r \<in> set (reservaciones bd). strip (r_evento r) \<noteq> [])
       \<and> (strip e = [] \<and> py_int cx = Some id_cliente \<and> id_cliente \<noteq> 0
            \<and> validar_clave_cliente id_cliente (clientes bd)
            \<and> validar_fecha_simple hoy (strip fx) = ([], Some fecha)
            \<and> disponible_salas bd fecha (salas bd) = Inr disponibles \<and> disponibles \<noteq> []
            \<and> py_int x = Some id_sala \<and> lower y \<in> set TURNOS
            \<and> sala_disponible bd id_sala fecha (lower y) = Inr True
          \<longrightarrow> registrar_reservacion hoy ahora bd (cx # fx # x # y # e # ins) =
                emite [TablaClientes, TablaSalas disponibles, EventoVacio]
                  (nombrar_y_guardar bd ahora id_cliente fecha id_sala (lower y) ins))
       \<and> (strip e = [] \<and> strptime fi_str = Some fi \<and> strptime ff_str = Some ff
            \<and> py_int fo = Some folio \<and> folio \<noteq> 0
            \<and> folio \<in> fst ` set (reservaciones_en_rango bd fi ff)
          \<longrightarrow> editar_evento bd (fi_str # ff_str # fo # e # ins) =
                emite [TablaRango (map (\<lambda>(f, e, t). (f, e, fst t))
                                     (reservaciones_en_rango bd fi ff)),
                       IngreseFolio, EventoVacioEdicion]
                  (renombrar bd folio ins)
              \<and> almacen bd (editar_evento bd [fi_str, ff_str, fo, e]) = bd)"
proof -
  have a: "\<forall>r \<in> set (reservaciones bd). strip (r_evento r) \<noteq> []"
    using alcanzable_eventos[OF assms] by auto
  have b: "registrar_reservacion hoy ahora bd (cx # fx # x # y # e # ins) =
                emite [TablaClientes, TablaSalas disponibles, EventoVacio]
                  (nombrar_y_guardar bd ahora id_cliente fecha id_sala (lower y) ins)"
    if "strip e = []" and cx: "py_int cx = Some id_cliente" "id_cliente \<noteq> 0"
            "validar_clave_cliente id_cliente (clientes bd)"
            "validar_fecha_simple hoy (strip fx) = ([], Some fecha)"
            "disponible_salas bd fecha (salas bd) = Inr disponibles" "disponibles \<noteq> []"
       and x: "py_int x = Some id_sala" "lower y \<in> set TURNOS"
            "sala_disponible bd id_sala fecha (lower y) = Inr True"
    unfolding registrar_hasta_eleccion[OF cx] elegir_y_guardar_libre[OF x]
      nombrar_y_guardar_vacio[OF that(1)] emite_emite
    by simp
  have c: "editar_evento bd (fi_str # ff_str # fo # e # ins) =
                emite [TablaRango (map (\<lambda>(f, e, t). (f, e, fst t))
                                     (reservaciones_en_rango bd fi ff)),
                       IngreseFolio, EventoVacioEdicion]
                  (renombrar bd folio ins)"
    if "strip e = []" and h: "strptime fi_str = Some fi" "strptime ff_str = Some ff"
            "py_int fo = Some folio" "folio \<noteq> 0"
            "folio \<in> fst ` set (reservaciones_en_rango bd fi ff)" for ins
    unfolding editar_hasta_renombrar[OF h] renombrar_vacio[OF that(1)] emite_emite
    by simp
  have d: "almacen bd (editar_evento bd [fi_str, ff_str, fo, e]) = bd"
    if "strip e = []" and h: "strptime fi_str = Some fi" "strptime ff_str = Some ff"
            "py_int fo = Some folio" "folio \<noteq> 0"
            "folio \<in> fst ` set (reservaciones_en_rango bd fi ff)"
    unfolding c[OF that] by (simp add: renombrar_fin almacen_def emite_def)
  from a b c d show ?thesis by blast
qed

theorem event_name_not_blank_witness:
  "alcanzable bd1
   \<and> map (\<lambda>r. strip (r_evento r)) (reservaciones bd1) = [''Kickoff'']
   \<and> strip ''  '' = []
   \<and> registrar_reservacion 739047 200 bd1 [''1'', ''06-13-2024'', ''1'', ''noche'', ''  ''] =
       ([TablaClientes, TablaSalas [(1, ''A'', 5, [manana, ''noche''])], EventoVacio],
        Lanza EOFError)
   \<and> editar_evento bd1 [''06-13-2024'', ''06-14-2024'', ''1'', ''  ''] =
       ([TablaRango [(1, ''Kickoff'', 739050)], IngreseFolio, EventoVacioEdicion],
        Lanza EOFError)
   \<and> almacen bd1 (editar_evento bd1 [''06-13-2024'', ''06-14-2024'', ''1'', ''  '']) = bd1"
proof -
  have t: "lower ''noche'' \<in> set TURNOS" by (simp add: lower_turnos TURNOS_def)
  have f: "(1::int) \<in> fst ` set (reservaciones_en_rango bd1 739050 739051)"
    by (simp add: rango_bd1)
  have z: "(1::int) \<noteq> 0" by simp
  note th = event_name_not_blank[OF alcanzable_bd1, where e = "''  ''" and cx = "''1''"
         and id_cliente = 1 and hoy = 739047 and fx = "''06-13-2024''" and fecha = 739050
         and disponibles = "[(1, ''A'', 5, [manana, ''noche''])]" and x = "''1''"
         and id_sala = 1 and y = "''noche''" and ahora = 200 and ins = "[]"
         and fi_str = "''06-13-2024''" and fi = 739050 and ff_str = "''06-14-2024''"
         and ff = 739051 and fo = "''1''" and folio = 1]
  from th have a: "\<forall>r \<in> set (reservaciones bd1). strip (r_evento r) \<noteq> []"
    by blast
  from th strip_ejemplos(3) py_int_1 z strptime_jun13 strptime_jun14 f
  have d: "almacen bd1 (editar_evento bd1 [''06-13-2024'', ''06-14-2024'', ''1'', ''  '']) = bd1"
    by blast
  from th strip_ejemplos(3) py_int_1 z cliente_bd1 fecha_jun13 disponibles_bd1 t noche_libre_bd1
  have b: "registrar_reservacion 739047 200 bd1 [''1'', ''06-13-2024'', ''1'', ''noche'', ''  ''] =
             emite [TablaClientes, TablaSalas [(1, ''A'', 5, [manana, ''noche''])], EventoVacio]
               (nombrar_y_guardar bd1 200 1 739050 1 (lower ''noche'') [])"
    by blast
  have c: "map (\<lambda>r. strip (r_evento r)) (reservaciones bd1) = [''Kickoff'']"
    by (simp add: bd1_def bd0_def strip_ejemplos)
  from a b c d alcanzable_bd1 strip_ejemplos(3) registrar_bd1_vacio editar_bd1_vacio
  show ?thesis by blast
qed

section \<open>What an edit changes\<close>

text \<open>
  C8. When \<open>editar_evento\<close> reaches its last line, the store differs from the one before
  in the event name of the reservations with the chosen folio only, which is the new name:
  clients, rooms and the folio counter are as before, and every reservation has its folio,
  client, room, date and time of registration and shift as before; a reservation with another
  folio is as before. The chosen folio is one of the store, and the new name is not blank.
  With the folio of a reservation of the range and a name that is not blank after trimming,
  the function does reach its last line, with the trimmed name stored.
\<close>

theorem edit_changes_event_only:
  shows "(snd (editar_evento bd ins) = Valor bd' rest \<longrightarrow>
           (\<exists>folio nuevo_evento.
              folio \<in> r_folio ` set (reservaciones bd) \<and> strip nuevo_evento \<noteq> []
            \<and> clientes bd' = clientes bd \<and> salas bd' = salas bd
            \<and> seq_reservaciones bd' = seq_reservaciones bd
            \<and> list_all2
                 (\<lambda>r r'. r' = r\<lparr>r_evento := if r_folio r = folio then nuevo_evento
                                              else r_evento r\<rparr>)
                 (reservaciones bd) (reservaciones bd')))
       \<and> (strptime fi_str = Some fi \<and> strptime ff_str = Some ff
            \<and> py_int fo = Some folio \<and> folio \<noteq> 0
            \<and> folio \<in> fst ` set (reservaciones_en_rango bd fi ff) \<and> strip e \<noteq> []
          \<longrightarrow> editar_evento bd (fi_str # ff_str # fo # e # ins') =
                ([TablaRango (map (\<lambda>(f, e, t). (f, e, fst t))
                                (reservaciones_en_rango bd fi ff)),
                  IngreseFolio, Actualizado],
                 Valor (actualizar_evento bd (strip e) folio) ins'))"
proof -
  have a: "\<exists>folio nuevo_evento.
              folio \<in> r_folio ` set (reservaciones bd) \<and> strip nuevo_evento \<noteq> []
            \<and> clientes bd' = clientes bd \<and> salas bd' = salas bd
            \<and> seq_reservaciones bd' = seq_reservaciones bd
            \<and> list_all2
                 (\<lambda>r r'. r' = r\<lparr>r_evento := if r_folio r = folio then nuevo_evento
                                              else r_evento r\<rparr>)
                 (reservaciones bd) (reservaciones bd')"
    if v: "snd (editar_evento bd ins) = Valor bd' rest"
  proof -
    from editar_evento_Valor[OF v] obtain folio nuevo where
      h: "bd' = actualizar_evento bd nuevo folio" "folio \<in> r_folio ` set (reservaciones bd)"
         "nuevo \<noteq> []" "strip nuevo = nuevo" by blast
    have "list_all2
            (\<lambda>r r'. r' = r\<lparr>r_evento := if r_folio r = folio then nuevo else r_evento r\<rparr>)
            (reservaciones bd) (reservaciones (actualizar_evento bd nuevo folio))"
      by (simp add: actualizar_evento_def list_all2_map2 list_all2_same)
    moreover have "clientes bd' = clientes bd" "salas bd' = salas bd"
      "seq_reservaciones bd' = seq_reservaciones bd"
      using h(1) by (simp_all add: actualizar_evento_def)
    moreover have "strip nuevo \<noteq> []" using h(3,4) by simp
    ultimately show ?thesis using h(1,2) by blast
  qed
  have b: "editar_evento bd (fi_str # ff_str # fo # e # ins') =
                ([TablaRango (map (\<lambda>(f, e, t). (f, e, fst t))
                                (reservaciones_en_rango bd fi ff)),
                  IngreseFolio, Actualizado],
                 Valor (actualizar_evento bd (strip e) folio) ins')"
    if h: "strptime fi_str = Some fi" "strptime ff_str = Some ff"
            "py_int fo = Some folio" "folio \<noteq> 0"
            "folio \<in> fst ` set (reservaciones_en_rango bd fi ff)" and e: "strip e \<noteq> []"
    unfolding editar_hasta_renombrar[OF h] renombrar_nombre[OF e] by (simp add: emite_def)
  from a b show ?thesis by blast
qed

theorem edit_changes_event_only_witness:
  "snd (editar_evento bd1 [''06-13-2024'', ''06-14-2024'', ''1'', ''Team Sync''])
     = Valor (actualizar_evento bd1 ''Team Sync'' 1) []
   \<and> reservaciones bd1 =
       [\<lparr>r_folio = 1, r_id_cliente = 1, r_id_sala = 1, r_fecha_registro = (739050, 100),
         r_turno = ''tarde'', r_evento = ''Kickoff''\<rparr>]
   \<and> reservaciones (actualizar_evento bd1 ''Team Sync'' 1) =
       [\<lparr>r_folio = 1, r_id_cliente = 1, r_id_sala = 1, r_fecha_registro = (739050, 100),
         r_turno = ''tarde'', r_evento = ''Team Sync''\<rparr>]
   \<and> (\<exists>folio nuevo_evento.
         folio \<in> r_folio ` set (reservaciones bd1) \<and> strip nuevo_evento \<noteq> []
       \<and> clientes (actualizar_evento bd1 ''Team Sync'' 1) = clientes bd1
       \<and> salas (actualizar_evento bd1 ''Team Sync'' 1) = salas bd1
       \<and> seq_reservaciones (actualizar_evento bd1 ''Team Sync'' 1) = seq_reservaciones bd1
       \<and> list_all2
            (\<lambda>r r'. r' = r\<lparr>r_evento := if r_folio r = folio then nuevo_evento
                                         else r_evento r\<rparr>)
            (reservaciones bd1) (reservaciones (actualizar_evento bd1 ''Team Sync'' 1)))
   \<and> strip ''Team Sync'' \<noteq> []
   \<and> (1::int) \<in> fst ` set (reservaciones_en_rango bd1 739050 739051)"
proof -
  have v: "snd (editar_evento bd1 [''06-13-2024'', ''06-14-2024'', ''1'', ''Team Sync''])
     = Valor (actualizar_evento bd1 ''Team Sync'' 1) []"
    by (simp add: editar_bd1_nombre)
  have f: "(1::int) \<in> fst ` set (reservaciones_en_rango bd1 739050 739051)"
    by (simp add: rango_bd1)
  have z: "(1::int) \<noteq> 0" by simp
  have n: "strip ''Team Sync'' \<noteq> []" by (simp add: strip_ejemplos2)
  have r: "reservaciones bd1 =
       [\<lparr>r_folio = 1, r_id_cliente = 1, r_id_sala = 1, r_fecha_registro = (739050, 100),
         r_turno = ''tarde'', r_evento = ''Kickoff''\<rparr>]"
       "reservaciones (actualizar_evento bd1 ''Team Sync'' 1) =
       [\<lparr>r_folio = 1, r_id_cliente = 1, r_id_sala = 1, r_fecha_registro = (739050, 100),
         r_turno = ''tarde'', r_evento = ''Team Sync''\<rparr>]"
    by (simp_all add: actualizar_evento_def bd1_def bd0_def)
  note t = edit_changes_event_only[where bd = bd1
         and ins = "[''06-13-2024'', ''06-14-2024'', ''1'', ''Team Sync'']"
         and bd' = "actualizar_evento bd1 ''Team Sync'' 1" and rest = "[]"
         and fi_str = "''06-13-2024''" and fi = 739050 and ff_str = "''06-14-2024''"
         and ff = 739051 and fo = "''1''" and folio = 1 and e = "''Team Sync''" and ins' = "[]"]
  from t v have a: "\<exists>folio nuevo_evento.
         folio \<in> r_folio ` set (reservaciones bd1) \<and> strip nuevo_evento \<noteq> []
       \<and> clientes (actualizar_evento bd1 ''Team Sync'' 1) = clientes bd1
       \<and> salas (actualizar_evento bd1 ''Team Sync'' 1) = salas bd1
       \<and> seq_reservaciones (actualizar_evento bd1 ''Team Sync'' 1) = seq_reservaciones bd1
       \<and> list_all2
            (\<lambda>r r'. r' = r\<lparr>r_evento := if r_folio r = folio then nuevo_evento
                                         else r_evento r\<rparr>)
            (reservaciones bd1) (reservaciones (actualizar_evento bd1 ''Team Sync'' 1))"
    by blast
  from v r a n f show ?thesis by blast
qed

lemma noche_tarde: "''noche'' < ''tarde''" "\<not> ''tarde'' \<le> ''noche''" "manana < ''noche''"
  by (simp_all add: manana_def less_char_def less_eq_char_def)

lemma registros_bd2:
  "registros bd2 739050 =
     [(2, ''Ana Ruiz'', ''A'', ''noche'', ''X''), (1, ''Ana Ruiz'', ''A'', ''tarde'', ''Kickoff'')]"
  by (simp add: registros_def bd2_def bd1_def bd0_def DATE_jun13 noche_tarde)

lemma in_registros:
  "row \<in> set (registros bd fecha) \<longleftrightarrow>
     (\<exists>r \<in> set (reservaciones bd). \<exists>c \<in> set (clientes bd). \<exists>s \<in> set (salas bd).
        r_id_cliente r = c_id_cliente c \<and> r_id_sala r = s_id_sala s
        \<and> DATE (r_fecha_registro r) = Some fecha
        \<and> row = (r_folio r, c_nombre c @ '' '' @ c_apellidos c, s_nombre s, r_turno r,
                  r_evento r))"
  unfolding registros_def set_sort
  by (auto split: if_splits)

lemma en_su_fecha_bd2: "list_all en_su_fecha (reservaciones bd2)"
  by (simp add: en_su_fecha_def bd2_def bd1_def bd0_def DATE_jun13)

section \<open>Consultation of a date\<close>

text \<open>
  With an afternoon and an evening reservation on one date, the consultation lists the
  evening one first: the rows are not in the order of the day.
\<close>

theorem shift_order_counterexample:
  "registros bd2 739050 =
     [(2, ''Ana Ruiz'', ''A'', ''noche'', ''X''), (1, ''Ana Ruiz'', ''A'', ''tarde'', ''Kickoff'')]
   \<and> map (orden_del_dia \<circ> turno_de) (registros bd2 739050) = [2, 1]
   \<and> \<not> sorted (map (orden_del_dia \<circ> turno_de) (registros bd2 739050))"
  by (simp add: registros_bd2 turno_de_def orden_del_dia_def manana_def)

text \<open>
  C9. The rows that \<open>consultar_reservaciones\<close> selects for a date are the
  reservations of that date, each joined with the name of its client and the name of its room,
  in the order of the text of the shift (line 326), which is: first the morning label, then
  \<open>noche\<close> (evening), then \<open>tarde\<close> (afternoon). The reservations of the date are
  those whose \<open>fecha_registro\<close> the query dates to it (line 325); in a store in which every
  reservation is dated to its reserved date, they are the reservations reserved for that date.
\<close>

theorem shift_text_order:
  "sorted (map turno_de (registros bd fecha))
   \<and> manana < ''noche'' \<and> ''noche'' < ''tarde''
   \<and> set (registros bd fecha) =
       {(r_folio r, c_nombre c @ '' '' @ c_apellidos c, s_nombre s, r_turno r, r_evento r)
        | r c s. r \<in> set (reservaciones bd) \<and> c \<in> set (clientes bd) \<and> s \<in> set (salas bd)
               \<and> r_id_cliente r = c_id_cliente c \<and> r_id_sala r = s_id_sala s
               \<and> DATE (r_fecha_registro r) = Some fecha}
   \<and> ((\<forall>r \<in> set (reservaciones bd). en_su_fecha r) \<longrightarrow>
        set (registros bd fecha) =
          {(r_folio r, c_nombre c @ '' '' @ c_apellidos c, s_nombre s, r_turno r, r_evento r)
           | r c s. r \<in> set (reservaciones bd) \<and> c \<in> set (clientes bd) \<and> s \<in> set (salas bd)
                  \<and> r_id_cliente r = c_id_cliente c \<and> r_id_sala r = s_id_sala s
                  \<and> fst (r_fecha_registro r) = fecha})"
proof -
  have k: "(\<lambda>(folio, cliente, sala, turno, evento). turno) = turno_de"
    by (auto simp: turno_de_def fun_eq_iff)
  have a: "sorted (map turno_de (registros bd fecha))"
    unfolding registros_def k by (rule sorted_sort_key)
  have b: "set (registros bd fecha) =
       {(r_folio r, c_nombre c @ '' '' @ c_apellidos c, s_nombre s, r_turno r, r_evento r)
        | r c s. r \<in> set (reservaciones bd) \<and> c \<in> set (clientes bd) \<and> s \<in> set (salas bd)
               \<and> r_id_cliente r = c_id_cliente c \<and> r_id_sala r = s_id_sala s
               \<and> DATE (r_fecha_registro r) = Some fecha}"
    by (rule set_eqI) (simp add: in_registros, blast)
  have c: "set (registros bd fecha) =
          {(r_folio r, c_nombre c @ '' '' @ c_apellidos c, s_nombre s, r_turno r, r_evento r)
           | r c s. r \<in> set (reservaciones bd) \<and> c \<in> set (clientes bd) \<and> s \<in> set (salas bd)
                  \<and> r_id_cliente r = c_id_cliente c \<and> r_id_sala r = s_id_sala s
                  \<and> fst (r_fecha_registro r) = fecha}"
    if h: "\<forall>r \<in> set (reservaciones bd). en_su_fecha r"
  proof -
    have e: "(DATE (r_fecha_registro r) = Some fecha) = (fst (r_fecha_registro r) = fecha)"
      if "r \<in> set (reservaciones bd)" for r
      using h that by (auto simp: en_su_fecha_def)
    show ?thesis unfolding b using e by blast
  qed
  from a b c noche_tarde show ?thesis by blast
qed

theorem shift_text_order_witness:
  "list_all en_su_fecha (reservaciones bd2)
   \<and> registros bd2 739050 =
       [(2, ''Ana Ruiz'', ''A'', ''noche'', ''X''), (1, ''Ana Ruiz'', ''A'', ''tarde'', ''Kickoff'')]
   \<and> sorted (map turno_de (registros bd2 739050))
   \<and> set (registros bd2 739050) =
          {(r_folio r, c_nombre c @ '' '' @ c_apellidos c, s_nombre s, r_turno r, r_evento r)
           | r c s. r \<in> set (reservaciones bd2) \<and> c \<in> set (clientes bd2) \<and> s \<in> set (salas bd2)
                  \<and> r_id_cliente r = c_id_cliente c \<and> r_id_sala r = s_id_sala s
                  \<and> fst (r_fecha_registro r) = 739050}"
proof -
  have h: "\<forall>r \<in> set (reservaciones bd2). en_su_fecha r"
    using en_su_fecha_bd2 by (simp add: list_all_iff)
  from shift_text_order[of bd2 739050] h en_su_fecha_bd2 registros_bd2
  show ?thesis by blast
qed

section \<open>A registration in the last half millisecond of a day\<close>

lemma registrar_medianoche:
  "registrar_reservacion 739063 MEDIANOCHE bd0
     [''1'', ''06-29-2024'', ''1'', ''tarde'', ''Kickoff'']
   = ([TablaClientes, TablaSalas [(1, ''A'', 5, TURNOS)],
       Registrada 1 ''Ana Ruiz'' ''A'' 739066 ''tarde'' ''Kickoff''], Valor bd_medianoche [])"
  by (simp add: run_defs bd0_def bd_medianoche_def py_int_1 strip_ejemplos strip_ejemplos2
      strptime_jun29 lower_turnos)

lemma registrar_doble:
  "registrar_reservacion 739064 100 bd_medianoche [''1'', ''06-29-2024'', ''1'', ''tarde'', ''X'']
   = ([TablaClientes, TablaSalas [(1, ''A'', 5, TURNOS)],
       Registrada 2 ''Ana Ruiz'' ''A'' 739066 ''tarde'' ''X''], Valor bd_doble [])"
  by (simp add: run_defs bd0_def bd_medianoche_def bd_doble_def py_int_1 strip_ejemplos
      strip_ejemplos2 strptime_jun29 lower_turnos DATE_jun29)

lemma alcanzable_bd_medianoche: "alcanzable bd_medianoche"
proof -
  have "alcanzable bd0" by (rule alcanzable.inicial) (simp add: bd0_def)
  from alcanzable.registra[OF this, of 739063 MEDIANOCHE
         "[''1'', ''06-29-2024'', ''1'', ''tarde'', ''Kickoff'']"]
  show ?thesis by (simp add: registrar_medianoche almacen_def)
qed

lemma alcanzable_bd_doble: "alcanzable bd_doble"
proof -
  from alcanzable.registra[OF alcanzable_bd_medianoche, of 739064 100
         "[''1'', ''06-29-2024'', ''1'', ''tarde'', ''X'']"]
  show ?thesis by (simp add: registrar_doble almacen_def)
qed

lemma registros_bd_medianoche:
  "registros bd_medianoche 739066 = []"
  "registros bd_medianoche 739067 = [(1, ''Ana Ruiz'', ''A'', ''tarde'', ''Kickoff'')]"
  by (simp_all add: registros_def bd_medianoche_def bd0_def DATE_jun29)

section \<open>No double booking\<close>

text \<open>
  C1. The program can reach a store in which two reservations have the same room, date and
  shift. A reservation of the room for Saturday 2024-06-29 in the afternoon is registered on
  2024-06-26 at 23:59:59.9995; the query of \<open>sala_disponible\<close> dates its
  \<open>fecha_registro\<close> to 2024-06-30, so the room counts as free on 2024-06-29 in the afternoon,
  and a second registration for the same room, date and shift is stored.
\<close>

theorem double_booking_reachable:
  "alcanzable bd_medianoche
   \<and> ranuras bd_medianoche = [(1, 739066, ''tarde'')]
   \<and> DATE (739066, MEDIANOCHE) = Some 739067
   \<and> sala_disponible bd_medianoche 1 739066 ''tarde'' = Inr True
   \<and> registrar_reservacion 739064 100 bd_medianoche
        [''1'', ''06-29-2024'', ''1'', ''tarde'', ''X'']
      = ([TablaClientes, TablaSalas [(1, ''A'', 5, TURNOS)],
          Registrada 2 ''Ana Ruiz'' ''A'' 739066 ''tarde'' ''X''], Valor bd_doble [])
   \<and> alcanzable bd_doble
   \<and> ranuras bd_doble = [(1, 739066, ''tarde''), (1, 739066, ''tarde'')]
   \<and> \<not> distinct (ranuras bd_doble)"
proof -
  have a: "ranuras bd_medianoche = [(1, 739066, ''tarde'')]"
    by (simp add: ranuras_def ranura_def bd_medianoche_def bd0_def)
  have b: "ranuras bd_doble = [(1, 739066, ''tarde''), (1, 739066, ''tarde'')]"
    by (simp add: ranuras_def ranura_def bd_doble_def bd0_def)
  have c: "sala_disponible bd_medianoche 1 739066 ''tarde'' = Inr True"
    by (simp add: sala_disponible_def sqlite_int_def existente_def bd_medianoche_def bd0_def
        DATE_jun29)
  from a c alcanzable_bd_medianoche alcanzable_bd_doble registrar_doble DATE_jun29(2)
  show ?thesis by (simp add: b)
qed

section \<open>A registered reservation is consulted\<close>

text \<open>
  C6. A registration that reaches its last line is not always listed by the consultation of
  its date. The reservation of the room for 2024-06-29 registered at 23:59:59.9995 is
  confirmed with folio 1 and that date; the consultation of 2024-06-29 on the new store
  selects no row and answers that the date has no reservations, and the row with folio 1 is
  selected by the consultation of 2024-06-30.
\<close>

theorem created_reservation_not_listed:
  "registrar_reservacion 739063 MEDIANOCHE bd0
     [''1'', ''06-29-2024'', ''1'', ''tarde'', ''Kickoff'']
   = ([TablaClientes, TablaSalas [(1, ''A'', 5, TURNOS)],
       Registrada 1 ''Ana Ruiz'' ''A'' 739066 ''tarde'' ''Kickoff''], Valor bd_medianoche [])
   \<and> strptime ''06-29-2024'' = Some 739066
   \<and> registros bd_medianoche 739066 = []
   \<and> consultar_reservaciones 739064 bd_medianoche [''06-29-2024'', ''n'']
      = ([NoHayEnFecha], Retorno [''n''])
   \<and> registros bd_medianoche 739067 = [(1, ''Ana Ruiz'', ''A'', ''tarde'', ''Kickoff'')]"
proof -
  have c: "consultar_reservaciones 739064 bd_medianoche [''06-29-2024'', ''n'']
      = ([NoHayEnFecha], Retorno [''n''])"
    by (simp add: consultar_reservaciones_def registros_bd_medianoche strip_ejemplos2
        strptime_jun29)
  from registrar_medianoche strptime_jun29 registros_bd_medianoche c
  show ?thesis by simp
qed

section \<open>Free and occupied slots\<close>

lemma existente_en_su_fecha:
  assumes "\<forall>r \<in> set (reservaciones bd). en_su_fecha r"
  shows "(existente bd id_sala fecha turno = []) =
           (\<not> (\<exists>r \<in> set (reservaciones bd).
                  r_id_sala r = id_sala \<and> fst (r_fecha_registro r) = fecha \<and> r_turno r = turno))"
  using assms by (auto simp: existente_def filter_empty_conv en_su_fecha_def)

lemma turnos_libres_filter:
  "sqlite_int id_sala \<Longrightarrow>
   turnos_libres bd id_sala fecha ts =
     Inr (filter (\<lambda>t. existente bd id_sala fecha t = []) ts)"
  by (induction ts) (simp_all add: sala_disponible_sqlite)

lemma disponible_salas_Inr:
  "\<forall>s \<in> set ss. sqlite_int (s_id_sala s) \<Longrightarrow>
   disponible_salas bd fecha ss =
     Inr (map (\<lambda>s. (s_id_sala s, s_nombre s, s_cupo s,
                     filter (\<lambda>t. existente bd (s_id_sala s) fecha t = []) TURNOS))
            (filter (\<lambda>s. filter (\<lambda>t. existente bd (s_id_sala s) fecha t = []) TURNOS \<noteq> []) ss))"
  by (induction ss) (simp_all add: turnos_libres_filter)

lemma disponible_salas_vacio:
  assumes "\<forall>s \<in> set (salas bd). sqlite_int (s_id_sala s)"
      and "disponible_salas bd fecha (salas bd) = Inr disponibles"
  shows "(disponibles = []) =
           (\<forall>s \<in> set (salas bd). \<forall>t \<in> set TURNOS. existente bd (s_id_sala s) fecha t \<noteq> [])"
  using assms(2) unfolding disponible_salas_Inr[OF assms(1)]
  by (auto simp: filter_empty_conv)

lemma registrar_hasta_salas:
  assumes "py_int cx = Some id_cliente" "id_cliente \<noteq> 0"
      "validar_clave_cliente id_cliente (clientes bd)"
      "validar_fecha_simple hoy (strip fx) = ([], Some fecha)"
  shows "registrar_reservacion hoy ahora bd (cx # fx # ins) =
           emite [TablaClientes]
             (if salas bd = [] then ([NoHaySalas], Retorno ins)
              else
                (case disponible_salas bd fecha (salas bd) of
                   Inl e \<Rightarrow> ([], Lanza e)
                 | Inr disponibles \<Rightarrow>
                     if disponibles = [] then ([NoHaySalasDisponibles], Retorno ins)
                     else emite [TablaSalas disponibles]
                            (elegir_y_guardar bd ahora id_cliente fecha ins)))"
proof -
  from assms(3) have c0: "clientes bd \<noteq> []" by (auto simp: validar_clave_cliente_def)
  have c: "pedir_cliente (clientes bd) (cx # fx # ins) = ([], Valor id_cliente (fx # ins))"
    using assms(1,2,3) by simp
  have f: "pedir_fecha hoy (fx # ins) = ([], Valor fecha ins)"
    using assms(4) by simp
  show ?thesis
    unfolding registrar_reservacion_def c luego_Valor f
    using c0 by (simp add: emite_nil)
qed

text \<open>
  With the only room reserved in its three shifts on the date, a registration for that room,
  date and afternoon, which a stored reservation has, is not answered with the message of
  line 206: the function answers that no room is available (line 193) and returns, the room
  and the shift not read.
\<close>

theorem availability_counterexample:
  "alcanzable bd3
   \<and> map ranura (reservaciones bd3) =
       [(1, 739050, ''tarde''), (1, 739050, ''noche''), (1, 739050, manana)]
   \<and> sala_disponible bd3 1 739050 ''tarde'' = Inr False
   \<and> registrar_reservacion 739047 400 bd3 [''1'', ''06-13-2024'', ''1'', ''tarde'']
      = ([TablaClientes, NoHaySalasDisponibles], Retorno [''1'', ''tarde''])
   \<and> primera_falla (fst (registrar_reservacion 739047 400 bd3
         [''1'', ''06-13-2024'', ''1'', ''tarde''])) = None"
proof -
  have a: "map ranura (reservaciones bd3) =
       [(1, 739050, ''tarde''), (1, 739050, ''noche''), (1, 739050, manana)]"
    by (simp add: ranura_def bd3_def bd2_def bd1_def bd0_def)
  have b: "sala_disponible bd3 1 739050 ''tarde'' = Inr False"
    by (simp add: sala_disponible_def sqlite_int_def existente_def bd3_def bd2_def bd1_def
        bd0_def DATE_jun13)
  from a b alcanzable_bd3 show ?thesis by (simp add: registrar_bd3_lleno)
qed

text \<open>
  C2. In a store in which every reservation is dated to its reserved date, and for a room
  number that the store can hold: \<open>sala_disponible\<close> answers, and its answer is true exactly
  when no stored reservation has that room, date and shift; the free shifts of the room on the
  date are exactly those of the three fixed shifts, in their order, that no stored reservation
  of the room and date has. When the client and the date have been accepted and the room and
  shift then entered are those of a stored reservation, the room numbers of the store being
  numbers that it can hold, nothing is stored for that choice: with no room registered the
  function says so (line 180) and returns; with rooms of which none has a free shift on the
  date, which is when every room has a stored reservation on the date in each of the three
  shifts, it answers that no room is available (line 193) and returns; otherwise it answers
  that the room is occupied (line 206) and asks for a room and a shift again.
\<close>

theorem availability:
  assumes "sqlite_int id_sala" and "\<forall>r \<in> set (reservaciones bd). en_su_fecha r"
  shows "sala_disponible bd id_sala fecha turno =
           Inr (\<not> (\<exists>r \<in> set (reservaciones bd).
                     r_id_sala r = id_sala \<and> fst (r_fecha_registro r) = fecha
                     \<and> r_turno r = turno))
       \<and> turnos_libres bd id_sala fecha TURNOS =
           Inr (filter (\<lambda>t. \<not> (\<exists>r \<in> set (reservaciones bd).
                                 r_id_sala r = id_sala \<and> fst (r_fecha_registro r) = fecha
                                 \<and> r_turno r = t)) TURNOS)
       \<and> ((\<exists>r \<in> set (reservaciones bd).
              r_id_sala r = id_sala \<and> fst (r_fecha_registro r) = fecha \<and> r_turno r = turno)
           \<and> py_int cx = Some id_cliente \<and> id_cliente \<noteq> 0
           \<and> validar_clave_cliente id_cliente (clientes bd)
           \<and> validar_fecha_simple hoy (strip fx) = ([], Some fecha)
           \<and> py_int x = Some id_sala \<and> lower y = turno \<and> turno \<in> set TURNOS
           \<and> (\<forall>s \<in> set (salas bd). sqlite_int (s_id_sala s))
           \<longrightarrow> (\<exists>disponibles.
                  disponible_salas bd fecha (salas bd) = Inr disponibles
                \<and> (disponibles = []) =
                    (\<forall>s \<in> set (salas bd). \<forall>t \<in> set TURNOS. \<exists>r \<in> set (reservaciones bd).
                       r_id_sala r = s_id_sala s \<and> fst (r_fecha_registro r) = fecha
                       \<and> r_turno r = t)
                \<and> registrar_reservacion hoy ahora bd (cx # fx # x # y # ins) =
                    (if salas bd = [] then ([TablaClientes, NoHaySalas], Retorno (x # y # ins))
                     else if disponibles = []
                     then ([TablaClientes, NoHaySalasDisponibles], Retorno (x # y # ins))
                     else emite [TablaClientes, TablaSalas disponibles, SalaOcupada]
                            (elegir_y_guardar bd ahora id_cliente fecha ins))))"
proof -
  note m = existente_en_su_fecha[OF assms(2)]
  have a: "sala_disponible bd id_sala fecha turno =
           Inr (\<not> (\<exists>r \<in> set (reservaciones bd).
                     r_id_sala r = id_sala \<and> fst (r_fecha_registro r) = fecha
                     \<and> r_turno r = turno))"
    unfolding sala_disponible_sqlite[OF assms(1)] m ..
  have b: "turnos_libres bd id_sala fecha TURNOS =
           Inr (filter (\<lambda>t. \<not> (\<exists>r \<in> set (reservaciones bd).
                                 r_id_sala r = id_sala \<and> fst (r_fecha_registro r) = fecha
                                 \<and> r_turno r = t)) TURNOS)"
    unfolding turnos_libres_filter[OF assms(1)] m ..
  have c: "\<exists>disponibles.
                  disponible_salas bd fecha (salas bd) = Inr disponibles
                \<and> (disponibles = []) =
                    (\<forall>s \<in> set (salas bd). \<forall>t \<in> set TURNOS. \<exists>r \<in> set (reservaciones bd).
                       r_id_sala r = s_id_sala s \<and> fst (r_fecha_registro r) = fecha
                       \<and> r_turno r = t)
                \<and> registrar_reservacion hoy ahora bd (cx # fx # x # y # ins) =
                    (if salas bd = [] then ([TablaClientes, NoHaySalas], Retorno (x # y # ins))
                     else if disponibles = []
                     then ([TablaClientes, NoHaySalasDisponibles], Retorno (x # y # ins))
                     else emite [TablaClientes, TablaSalas disponibles, SalaOcupada]
                            (elegir_y_guardar bd ahora id_cliente fecha ins))"
    if occ: "\<exists>r \<in> set (reservaciones bd).
              r_id_sala r = id_sala \<and> fst (r_fecha_registro r) = fecha \<and> r_turno r = turno"
      and cx: "py_int cx = Some id_cliente" "id_cliente \<noteq> 0"
              "validar_clave_cliente id_cliente (clientes bd)"
              "validar_fecha_simple hoy (strip fx) = ([], Some fecha)"
      and x: "py_int x = Some id_sala" "lower y = turno" "turno \<in> set TURNOS"
      and k: "\<forall>s \<in> set (salas bd). sqlite_int (s_id_sala s)"
  proof -
    from disponible_salas_Inr[OF k, of bd fecha] obtain disponibles where
      d: "disponible_salas bd fecha (salas bd) = Inr disponibles" by blast
    have v: "(disponibles = []) =
                    (\<forall>s \<in> set (salas bd). \<forall>t \<in> set TURNOS. \<exists>r \<in> set (reservaciones bd).
                       r_id_sala r = s_id_sala s \<and> fst (r_fecha_registro r) = fecha
                       \<and> r_turno r = t)"
      unfolding disponible_salas_vacio[OF k d] using m by blast
    from occ a have na: "sala_disponible bd id_sala fecha (lower y) = Inr False"
      using x(2) by simp
    from x have ty: "lower y \<in> set TURNOS" by simp
    have r: "registrar_reservacion hoy ahora bd (cx # fx # x # y # ins) =
                    (if salas bd = [] then ([TablaClientes, NoHaySalas], Retorno (x # y # ins))
                     else if disponibles = []
                     then ([TablaClientes, NoHaySalasDisponibles], Retorno (x # y # ins))
                     else emite [TablaClientes, TablaSalas disponibles, SalaOcupada]
                            (elegir_y_guardar bd ahora id_cliente fecha ins))"
      unfolding registrar_hasta_salas[OF cx] d
        elegir_y_guardar_ocupada[OF x(1) ty na]
      by (simp add: emite_def)
    from d v r show ?thesis by blast
  qed
  from a b c show ?thesis by blast
qed

lemma en_su_fecha_bd1: "list_all en_su_fecha (reservaciones bd1)"
  by (simp add: en_su_fecha_def bd1_def bd0_def DATE_jun13)

lemma en_su_fecha_bd3: "list_all en_su_fecha (reservaciones bd3)"
  by (simp add: en_su_fecha_def bd3_def bd2_def bd1_def bd0_def DATE_jun13)

lemma disponibles_bd3: "disponible_salas bd3 739050 (salas bd3) = Inr []"
  by (simp add: TURNOS_def sala_disponible_def sqlite_int_def existente_def DATE_jun13 bd3_def
      bd2_def bd1_def bd0_def manana_def)

theorem availability_witness:
  "sqlite_int 1 \<and> list_all en_su_fecha (reservaciones bd1)
   \<and> list_all (\<lambda>s. sqlite_int (s_id_sala s)) (salas bd1)
   \<and> map ranura (reservaciones bd1) = [(1, 739050, ''tarde'')]
   \<and> sala_disponible bd1 1 739050 ''tarde'' = Inr False
   \<and> sala_disponible bd1 1 739050 ''noche'' = Inr True
   \<and> turnos_libres bd1 1 739050 TURNOS = Inr [manana, ''noche'']
   \<and> py_int ''1'' = Some 1 \<and> validar_clave_cliente 1 (clientes bd1)
   \<and> validar_fecha_simple 739047 (strip ''06-13-2024'') = ([], Some 739050)
   \<and> disponible_salas bd1 739050 (salas bd1) = Inr [(1, ''A'', 5, [manana, ''noche''])]
   \<and> lower ''TARDE'' = ''tarde'' \<and> ''tarde'' \<in> set TURNOS
   \<and> registrar_reservacion 739047 100 bd1 [''1'', ''06-13-2024'', ''1'', ''TARDE''] =
        emite [TablaClientes, TablaSalas [(1, ''A'', 5, [manana, ''noche''])], SalaOcupada]
          (elegir_y_guardar bd1 100 1 739050 [])
   \<and> registrar_reservacion 739047 100 bd1 [''1'', ''06-13-2024'', ''1'', ''TARDE''] =
        ([TablaClientes, TablaSalas [(1, ''A'', 5, [manana, ''noche''])], SalaOcupada],
         Lanza EOFError)
   \<and> list_all en_su_fecha (reservaciones bd3)
   \<and> list_all (\<lambda>s. sqlite_int (s_id_sala s)) (salas bd3)
   \<and> map ranura (reservaciones bd3) =
        [(1, 739050, ''tarde''), (1, 739050, ''noche''), (1, 739050, manana)]
   \<and> turnos_libres bd3 1 739050 TURNOS = Inr []
   \<and> disponible_salas bd3 739050 (salas bd3) = Inr []
   \<and> registrar_reservacion 739047 400 bd3 [''1'', ''06-13-2024'', ''1'', ''TARDE''] =
        ([TablaClientes, NoHaySalasDisponibles], Retorno [''1'', ''TARDE''])"
proof -
  have si: "sqlite_int 1" by (simp add: sqlite_int_def)
  have k1: "\<forall>s \<in> set (salas bd1). sqlite_int (s_id_sala s)"
    and k3: "\<forall>s \<in> set (salas bd3). sqlite_int (s_id_sala s)"
    by (simp_all add: bd3_def bd2_def bd1_def bd0_def sqlite_int_def)
  have f1: "\<forall>r \<in> set (reservaciones bd1). en_su_fecha r"
    using en_su_fecha_bd1 by (simp add: list_all_iff)
  have f3: "\<forall>r \<in> set (reservaciones bd3). en_su_fecha r"
    using en_su_fecha_bd3 by (simp add: list_all_iff)
  have r1: "map ranura (reservaciones bd1) = [(1, 739050, ''tarde'')]"
    by (simp add: ranura_def bd1_def bd0_def)
  have r3: "map ranura (reservaciones bd3) =
        [(1, 739050, ''tarde''), (1, 739050, ''noche''), (1, 739050, manana)]"
    by (simp add: ranura_def bd3_def bd2_def bd1_def bd0_def)
  have o1: "\<exists>r \<in> set (reservaciones bd1).
              r_id_sala r = 1 \<and> fst (r_fecha_registro r) = 739050 \<and> r_turno r = ''tarde''"
    and o3: "\<exists>r \<in> set (reservaciones bd3).
              r_id_sala r = 1 \<and> fst (r_fecha_registro r) = 739050 \<and> r_turno r = ''tarde''"
    by (simp_all add: bd3_def bd2_def bd1_def bd0_def)
  have c1: "validar_clave_cliente 1 (clientes bd1)" "validar_clave_cliente 1 (clientes bd3)"
    by (simp_all add: validar_clave_cliente_def bd3_def bd2_def bd1_def bd0_def)
  have t: "''tarde'' \<in> set TURNOS" by (simp add: TURNOS_def)
  have z: "(1::int) \<noteq> 0" by simp
  have s1: "salas bd1 \<noteq> []" "salas bd3 \<noteq> []"
    by (simp_all add: bd3_def bd2_def bd1_def bd0_def)
  note th1 = availability[OF si f1, where fecha = 739050 and turno = "''tarde''"
         and cx = "''1''" and id_cliente = 1 and hoy = 739047 and fx = "''06-13-2024''"
         and x = "''1''" and y = "''TARDE''" and ahora = 100 and ins = "[]"]
  note th1n = availability[OF si f1, where fecha = 739050 and turno = "''noche''"]
  note th3 = availability[OF si f3, where fecha = 739050 and turno = "''tarde''"
         and cx = "''1''" and id_cliente = 1 and hoy = 739047 and fx = "''06-13-2024''"
         and x = "''1''" and y = "''TARDE''" and ahora = 400 and ins = "[]"]
  have a1: "sala_disponible bd1 1 739050 ''tarde'' = Inr False"
    using th1 o1 by simp
  have a2: "sala_disponible bd1 1 739050 ''noche'' = Inr True"
    using th1n by (simp add: bd1_def bd0_def)
  have b1: "turnos_libres bd1 1 739050 TURNOS = Inr [manana, ''noche'']"
    using th1 by (simp add: bd1_def bd0_def TURNOS_def manana_def)
  have b3: "turnos_libres bd3 1 739050 TURNOS = Inr []"
    using th3 by (simp add: bd3_def bd2_def bd1_def bd0_def TURNOS_def manana_def)
  from th1 o1 py_int_1 z c1(1) fecha_jun13 lower_turnos(1) t k1
  have "\<exists>disponibles.
          disponible_salas bd1 739050 (salas bd1) = Inr disponibles
        \<and> registrar_reservacion 739047 100 bd1 [''1'', ''06-13-2024'', ''1'', ''TARDE''] =
            (if salas bd1 = [] then ([TablaClientes, NoHaySalas], Retorno [''1'', ''TARDE''])
             else if disponibles = []
             then ([TablaClientes, NoHaySalasDisponibles], Retorno [''1'', ''TARDE''])
             else emite [TablaClientes, TablaSalas disponibles, SalaOcupada]
                    (elegir_y_guardar bd1 100 1 739050 []))"
    by blast
  then have e1: "registrar_reservacion 739047 100 bd1 [''1'', ''06-13-2024'', ''1'', ''TARDE''] =
        emite [TablaClientes, TablaSalas [(1, ''A'', 5, [manana, ''noche''])], SalaOcupada]
          (elegir_y_guardar bd1 100 1 739050 [])"
    using s1(1) by (auto simp: disponibles_bd1)
  from th3 o3 py_int_1 z c1(2) fecha_jun13 lower_turnos(1) t k3
  have "\<exists>disponibles.
          disponible_salas bd3 739050 (salas bd3) = Inr disponibles
        \<and> registrar_reservacion 739047 400 bd3 [''1'', ''06-13-2024'', ''1'', ''TARDE''] =
            (if salas bd3 = [] then ([TablaClientes, NoHaySalas], Retorno [''1'', ''TARDE''])
             else if disponibles = []
             then ([TablaClientes, NoHaySalasDisponibles], Retorno [''1'', ''TARDE''])
             else emite [TablaClientes, TablaSalas disponibles, SalaOcupada]
                    (elegir_y_guardar bd3 400 1 739050 []))"
    by blast
  then have e3: "registrar_reservacion 739047 400 bd3 [''1'', ''06-13-2024'', ''1'', ''TARDE''] =
        ([TablaClientes, NoHaySalasDisponibles], Retorno [''1'', ''TARDE''])"
    using s1(2) by (auto simp: disponibles_bd3)
  have l1: "list_all (\<lambda>s. sqlite_int (s_id_sala s)) (salas bd1)"
    and l3: "list_all (\<lambda>s. sqlite_int (s_id_sala s)) (salas bd3)"
    using k1 k3 by (simp_all add: list_all_iff)
  from si en_su_fecha_bd1 en_su_fecha_bd3 l1 l3 r1 r3 a1 a2 b1 b3 py_int_1 c1(1) fecha_jun13
    disponibles_bd1 disponibles_bd3 lower_turnos(1) t e1 e3 registrar_bd1_ocupada
  show ?thesis by simp
qed

section \<open>The order of the checks of a registration\<close>

lemma registrar_bd1_ocupada_vacio:
  "registrar_reservacion 739047 200 bd1 [''1'', ''06-13-2024'', ''1'', ''tarde'', ''  '']
   = ([TablaClientes, TablaSalas [(1, ''A'', 5, [manana, ''noche''])], SalaOcupada,
       SeleccionInvalida], Lanza EOFError)"
  by (simp add: run_defs bd0_def bd1_def py_int_1 py_int_blanco strip_ejemplos strptime_jun13
      lower_turnos DATE_jun13)

lemma nombre_cliente_valido:
  "validar_clave_cliente k (clientes bd) \<Longrightarrow> nombre_cliente bd k \<noteq> []"
  by (auto simp: validar_clave_cliente_def nombre_cliente_def list_ex_iff filter_empty_conv)

lemma nombre_sala_existente:
  "id_sala \<in> s_id_sala ` set (salas bd) \<Longrightarrow> nombre_sala bd id_sala \<noteq> []"
  by (auto simp: nombre_sala_def filter_empty_conv)

lemma guardar_reservacion_nombres:
  assumes "nombre_cliente bd k \<noteq> []" "nombre_sala bd id_sala \<noteq> []"
  shows "guardar_reservacion bd ahora k fecha id_sala turno evento ins =
           ([Registrada (siguiente_folio bd) (hd (nombre_cliente bd k))
               (hd (nombre_sala bd id_sala)) fecha turno evento],
            Valor (snd (insertar_reservacion bd k id_sala (fecha, ahora) turno evento)) ins)"
  using assms
  by (auto simp: guardar_reservacion_def insertar_reservacion_def Let_def split: list.splits)

lemma nombrar_y_guardar_nombre:
  "strip e \<noteq> [] \<Longrightarrow>
   nombrar_y_guardar bd ahora k fecha id_sala turno (e # ins) =
     guardar_reservacion bd ahora k fecha id_sala turno (strip e) ins"
  by (simp add: nombrar_y_guardar_def validar_evento_def luego_Valor emite_nil strip_strip)

lemma libre_disponibles:
  assumes "\<forall>s \<in> set (salas bd). sqlite_int (s_id_sala s)"
      and "disponible_salas bd fecha (salas bd) = Inr disponibles"
      and "id_sala \<in> s_id_sala ` set (salas bd)" and "turno \<in> set TURNOS"
      and "sala_disponible bd id_sala fecha turno = Inr True"
  shows "disponibles \<noteq> []"
proof -
  from sala_disponible_Inr[OF assms(5)] have "existente bd id_sala fecha turno = []" by simp
  with assms(3,4) show ?thesis
    unfolding disponible_salas_vacio[OF assms(1,2)] by auto
qed

text \<open>
  With an occupied slot and a blank event name, for a client and a room that exist, the
  occupied slot is the failure reported, where the order client, room, event name, slot gives
  the blank name: the slot is checked when the room and the shift are entered, before the
  event name is asked for, and the line meant as the event name is read as the next choice of
  a room.
\<close>

theorem check_order_counterexample:
  "1 \<in> set (map c_id_cliente (clientes bd1)) \<and> 1 \<in> set (map s_id_sala (salas bd1))
   \<and> strip ''  '' = [] \<and> (1, 739050, ''tarde'') \<in> set (ranuras bd1)
   \<and> primera_falla_spec bd1 1 1 739050 ''tarde'' ''  '' = Some BlankEventName
   \<and> registrar_reservacion 739047 200 bd1 [''1'', ''06-13-2024'', ''1'', ''tarde'', ''  '']
      = ([TablaClientes, TablaSalas [(1, ''A'', 5, [manana, ''noche''])], SalaOcupada,
          SeleccionInvalida], Lanza EOFError)
   \<and> primera_falla (fst (registrar_reservacion 739047 200 bd1
         [''1'', ''06-13-2024'', ''1'', ''tarde'', ''  ''])) = Some ShiftOccupied"
proof -
  have a: "primera_falla_spec bd1 1 1 739050 ''tarde'' ''  '' = Some BlankEventName"
    by (simp add: primera_falla_spec_def bd1_def bd0_def strip_ejemplos)
  have b: "(1, 739050, ''tarde'') \<in> set (ranuras bd1)"
    by (simp add: ranuras_def ranura_def bd1_def bd0_def)
  have c: "1 \<in> set (map c_id_cliente (clientes bd1))" "1 \<in> set (map s_id_sala (salas bd1))"
    by (simp_all add: bd1_def bd0_def)
  from a b c strip_ejemplos(3) show ?thesis
    by (simp add: registrar_bd1_ocupada_vacio)
qed

text \<open>
  C3. For a client number read from the first line, \<open>registrar_reservacion\<close> checks in this
  order, and the first check that fails decides: with no client registered it says so
  (line 154) and returns; the number 0 cancels; another number that no client has is answered
  with the message of line 170, whatever is entered after it. With the client accepted, the
  date accepted, a shift that is one of the three and a room that exists, the room numbers of
  the store being numbers that it can hold: when no room has a free shift on the date, which
  is when \<open>sala_disponible\<close> is false for every room of the store and each of the three
  shifts, the room entered has none either, and the function answers that no room is
  available (line 193) and returns; otherwise a room and shift that are not free are answered with the message of
  line 206, before any event name is read, and the room and the shift are asked for again;
  with a free room and shift, an event name that is blank after trimming is answered with the
  message of line 216 and asked for again; and a name that is not blank is stored, trimmed,
  with the reservation, which the last message confirms.
\<close>

theorem check_order:
  assumes "py_int cx = Some k"
  shows "(clientes bd = [] \<longrightarrow>
            registrar_reservacion hoy ahora bd (cx # ins') = ([NoHayClientes], Retorno (cx # ins')))
       \<and> (clientes bd \<noteq> [] \<and> k = 0 \<longrightarrow>
            registrar_reservacion hoy ahora bd (cx # ins') = ([TablaClientes], Retorno ins'))
       \<and> (clientes bd \<noteq> [] \<and> k \<noteq> 0 \<and> \<not> validar_clave_cliente k (clientes bd) \<longrightarrow>
            primera_falla (fst (registrar_reservacion hoy ahora bd (cx # ins')))
              = Some UnknownClient)
       \<and> (k \<noteq> 0 \<and> validar_clave_cliente k (clientes bd)
            \<and> validar_fecha_simple hoy (strip fx) = ([], Some fecha)
            \<and> py_int x = Some id_sala \<and> lower y \<in> set TURNOS
            \<and> id_sala \<in> s_id_sala ` set (salas bd)
            \<and> (\<forall>s \<in> set (salas bd). sqlite_int (s_id_sala s)) \<longrightarrow>
            (\<exists>disponibles libre.
               disponible_salas bd fecha (salas bd) = Inr disponibles
             \<and> sala_disponible bd id_sala fecha (lower y) = Inr libre
             \<and> (disponibles = []) =
                 (\<forall>s \<in> set (salas bd). \<forall>t \<in> set TURNOS.
                    sala_disponible bd (s_id_sala s) fecha t = Inr False)
             \<and> (disponibles = [] \<longrightarrow>
                  \<not> libre
                  \<and> registrar_reservacion hoy ahora bd (cx # fx # x # y # e # ins) =
                      ([TablaClientes, NoHaySalasDisponibles], Retorno (x # y # e # ins)))
             \<and> (disponibles \<noteq> [] \<and> \<not> libre \<longrightarrow>
                  primera_falla
                    (fst (registrar_reservacion hoy ahora bd (cx # fx # x # y # e # ins)))
                    = Some ShiftOccupied
                  \<and> registrar_reservacion hoy ahora bd (cx # fx # x # y # e # ins) =
                      emite [TablaClientes, TablaSalas disponibles, SalaOcupada]
                        (elegir_y_guardar bd ahora k fecha (e # ins)))
             \<and> (libre \<and> strip e = [] \<longrightarrow>
                  primera_falla
                    (fst (registrar_reservacion hoy ahora bd (cx # fx # x # y # e # ins)))
                    = Some BlankEventName
                  \<and> registrar_reservacion hoy ahora bd (cx # fx # x # y # e # ins) =
                      emite [TablaClientes, TablaSalas disponibles, EventoVacio]
                        (nombrar_y_guardar bd ahora k fecha id_sala (lower y) ins))
             \<and> (libre \<and> strip e \<noteq> [] \<longrightarrow>
                  registrar_reservacion hoy ahora bd (cx # fx # x # y # e # ins) =
                    ([TablaClientes, TablaSalas disponibles,
                      Registrada (siguiente_folio bd) (hd (nombre_cliente bd k))
                        (hd (nombre_sala bd id_sala)) fecha (lower y) (strip e)],
                     Valor (snd (insertar_reservacion bd k id_sala (fecha, ahora) (lower y)
                                   (strip e))) ins))))"
proof -
  have a: "registrar_reservacion hoy ahora bd (cx # ins') = ([NoHayClientes], Retorno (cx # ins'))"
    if "clientes bd = []"
    using that by (simp add: registrar_reservacion_def)
  have b: "registrar_reservacion hoy ahora bd (cx # ins') = ([TablaClientes], Retorno ins')"
    if "clientes bd \<noteq> []" "k = 0"
    using that assms by (simp add: registrar_reservacion_def luego_def emite_def)
  have c: "primera_falla (fst (registrar_reservacion hoy ahora bd (cx # ins')))
              = Some UnknownClient"
    if "clientes bd \<noteq> []" "k \<noteq> 0" "\<not> validar_clave_cliente k (clientes bd)"
    using that assms by (simp add: registrar_reservacion_def luego_emite fst_emite)
  have d: "\<exists>disponibles libre.
               disponible_salas bd fecha (salas bd) = Inr disponibles
             \<and> sala_disponible bd id_sala fecha (lower y) = Inr libre
             \<and> (disponibles = []) =
                 (\<forall>s \<in> set (salas bd). \<forall>t \<in> set TURNOS.
                    sala_disponible bd (s_id_sala s) fecha t = Inr False)
             \<and> (disponibles = [] \<longrightarrow>
                  \<not> libre
                  \<and> registrar_reservacion hoy ahora bd (cx # fx # x # y # e # ins) =
                      ([TablaClientes, NoHaySalasDisponibles], Retorno (x # y # e # ins)))
             \<and> (disponibles \<noteq> [] \<and> \<not> libre \<longrightarrow>
                  primera_falla
                    (fst (registrar_reservacion hoy ahora bd (cx # fx # x # y # e # ins)))
                    = Some ShiftOccupied
                  \<and> registrar_reservacion hoy ahora bd (cx # fx # x # y # e # ins) =
                      emite [TablaClientes, TablaSalas disponibles, SalaOcupada]
                        (elegir_y_guardar bd ahora k fecha (e # ins)))
             \<and> (libre \<and> strip e = [] \<longrightarrow>
                  primera_falla
                    (fst (registrar_reservacion hoy ahora bd (cx # fx # x # y # e # ins)))
                    = Some BlankEventName
                  \<and> registrar_reservacion hoy ahora bd (cx # fx # x # y # e # ins) =
                      emite [TablaClientes, TablaSalas disponibles, EventoVacio]
                        (nombrar_y_guardar bd ahora k fecha id_sala (lower y) ins))
             \<and> (libre \<and> strip e \<noteq> [] \<longrightarrow>
                  registrar_reservacion hoy ahora bd (cx # fx # x # y # e # ins) =
                    ([TablaClientes, TablaSalas disponibles,
                      Registrada (siguiente_folio bd) (hd (nombre_cliente bd k))
                        (hd (nombre_sala bd id_sala)) fecha (lower y) (strip e)],
                     Valor (snd (insertar_reservacion bd k id_sala (fecha, ahora) (lower y)
                                   (strip e))) ins))"
    if k: "k \<noteq> 0" "validar_clave_cliente k (clientes bd)"
      and fx: "validar_fecha_simple hoy (strip fx) = ([], Some fecha)"
      and x: "py_int x = Some id_sala" and y: "lower y \<in> set TURNOS"
      and sala: "id_sala \<in> s_id_sala ` set (salas bd)"
      and llaves: "\<forall>s \<in> set (salas bd). sqlite_int (s_id_sala s)"
  proof -
    note h = assms k fx
    from disponible_salas_Inr[OF llaves, of bd fecha] obtain disponibles where
      dd: "disponible_salas bd fecha (salas bd) = Inr disponibles" by blast
    from sala llaves have si: "sqlite_int id_sala" by auto
    define libre where "libre = (existente bd id_sala fecha (lower y) = [])"
    have sd: "sala_disponible bd id_sala fecha (lower y) = Inr libre"
      unfolding libre_def by (rule sala_disponible_sqlite[OF si])
    from sala have s0: "salas bd \<noteq> []" by auto
    have d1: "\<not> libre
              \<and> registrar_reservacion hoy ahora bd (cx # fx # x # y # e # ins) =
                      ([TablaClientes, NoHaySalasDisponibles], Retorno (x # y # e # ins))"
      if v: "disponibles = []"
    proof -
      have "\<not> libre"
      proof
        assume "libre"
        with sd have "sala_disponible bd id_sala fecha (lower y) = Inr True" by simp
        from libre_disponibles[OF llaves dd sala y this] v show False by simp
      qed
      moreover have "registrar_reservacion hoy ahora bd (cx # fx # x # y # e # ins) =
                      ([TablaClientes, NoHaySalasDisponibles], Retorno (x # y # e # ins))"
        unfolding registrar_hasta_salas[OF h] dd using s0 v by (simp add: emite_def)
      ultimately show ?thesis by simp
    qed
    have d2: "primera_falla
                    (fst (registrar_reservacion hoy ahora bd (cx # fx # x # y # e # ins)))
                    = Some ShiftOccupied
                  \<and> registrar_reservacion hoy ahora bd (cx # fx # x # y # e # ins) =
                      emite [TablaClientes, TablaSalas disponibles, SalaOcupada]
                        (elegir_y_guardar bd ahora k fecha (e # ins))"
      if v: "disponibles \<noteq> []" "\<not> libre"
    proof -
      from sd v(2) have na: "sala_disponible bd id_sala fecha (lower y) = Inr False" by simp
      have r: "registrar_reservacion hoy ahora bd (cx # fx # x # y # e # ins) =
                      emite [TablaClientes, TablaSalas disponibles, SalaOcupada]
                        (elegir_y_guardar bd ahora k fecha (e # ins))"
        unfolding registrar_hasta_eleccion[OF h dd v(1)]
          elegir_y_guardar_ocupada[OF x y na] emite_emite
        by simp
      show ?thesis unfolding r by (simp add: fst_emite r)
    qed
    have d3: "primera_falla
                    (fst (registrar_reservacion hoy ahora bd (cx # fx # x # y # e # ins)))
                    = Some BlankEventName
                  \<and> registrar_reservacion hoy ahora bd (cx # fx # x # y # e # ins) =
                      emite [TablaClientes, TablaSalas disponibles, EventoVacio]
                        (nombrar_y_guardar bd ahora k fecha id_sala (lower y) ins)"
      if v: "libre" "strip e = []"
    proof -
      from sd v(1) have li: "sala_disponible bd id_sala fecha (lower y) = Inr True" by simp
      note ne = libre_disponibles[OF llaves dd sala y li]
      have r: "registrar_reservacion hoy ahora bd (cx # fx # x # y # e # ins) =
                      emite [TablaClientes, TablaSalas disponibles, EventoVacio]
                        (nombrar_y_guardar bd ahora k fecha id_sala (lower y) ins)"
        unfolding registrar_hasta_eleccion[OF h dd ne] elegir_y_guardar_libre[OF x y li]
          nombrar_y_guardar_vacio[OF v(2)] emite_emite
        by simp
      show ?thesis unfolding r by (simp add: fst_emite r)
    qed
    have d4: "registrar_reservacion hoy ahora bd (cx # fx # x # y # e # ins) =
                    ([TablaClientes, TablaSalas disponibles,
                      Registrada (siguiente_folio bd) (hd (nombre_cliente bd k))
                        (hd (nombre_sala bd id_sala)) fecha (lower y) (strip e)],
                     Valor (snd (insertar_reservacion bd k id_sala (fecha, ahora) (lower y)
                                   (strip e))) ins)"
      if v: "libre" "strip e \<noteq> []"
    proof -
      from sd v(1) have li: "sala_disponible bd id_sala fecha (lower y) = Inr True" by simp
      note ne = libre_disponibles[OF llaves dd sala y li]
      show ?thesis
        unfolding registrar_hasta_eleccion[OF h dd ne] elegir_y_guardar_libre[OF x y li]
          nombrar_y_guardar_nombre[OF v(2)]
          guardar_reservacion_nombres[OF nombre_cliente_valido[OF k(2)]
            nombre_sala_existente[OF sala]]
        by (simp add: emite_def)
    qed
    have d0: "(disponibles = []) =
                 (\<forall>s \<in> set (salas bd). \<forall>t \<in> set TURNOS.
                    sala_disponible bd (s_id_sala s) fecha t = Inr False)"
      unfolding disponible_salas_vacio[OF llaves dd]
      using llaves by (auto simp: sala_disponible_sqlite)
    from dd sd d0 d1 d2 d3 d4 show ?thesis by blast
  qed
  from a b c d show ?thesis by blast
qed

lemma tarde_ocupada_bd1: "sala_disponible bd1 1 739050 (lower ''TARDE'') = Inr False"
  by (simp add: lower_turnos sala_disponible_def sqlite_int_def existente_def DATE_jun13 bd1_def
      bd0_def)

lemma tarde_ocupada_bd3: "sala_disponible bd3 1 739050 (lower ''TARDE'') = Inr False"
  by (simp add: lower_turnos sala_disponible_def sqlite_int_def existente_def DATE_jun13 bd3_def
      bd2_def bd1_def bd0_def)

theorem check_order_witness:
  "py_int ''1'' = Some 1 \<and> py_int ''0'' = Some 0 \<and> py_int ''7'' = Some 7
   \<and> clientes bd_sin_clientes = []
   \<and> registrar_reservacion 739047 200 bd_sin_clientes [''1''] = ([NoHayClientes], Retorno [''1''])
   \<and> clientes bd1 \<noteq> []
   \<and> registrar_reservacion 739047 200 bd1 [''0'', ''06-13-2024''] =
       ([TablaClientes], Retorno [''06-13-2024''])
   \<and> \<not> validar_clave_cliente 7 (clientes bd1)
   \<and> primera_falla (fst (registrar_reservacion 739047 200 bd1 [''7''])) = Some UnknownClient
   \<and> validar_clave_cliente 1 (clientes bd1)
   \<and> validar_fecha_simple 739047 (strip ''06-13-2024'') = ([], Some 739050)
   \<and> map s_id_sala (salas bd1) = [1] \<and> map s_id_sala (salas bd3) = [1] \<and> sqlite_int 1
   \<and> disponible_salas bd3 739050 (salas bd3) = Inr []
   \<and> sala_disponible bd3 1 739050 (lower ''TARDE'') = Inr False
   \<and> registrar_reservacion 739047 200 bd3 [''1'', ''06-13-2024'', ''1'', ''TARDE'', ''Kickoff''] =
       ([TablaClientes, NoHaySalasDisponibles], Retorno [''1'', ''TARDE'', ''Kickoff''])
   \<and> disponible_salas bd1 739050 (salas bd1) = Inr [(1, ''A'', 5, [manana, ''noche''])]
   \<and> sala_disponible bd1 1 739050 (lower ''TARDE'') = Inr False
   \<and> primera_falla (fst (registrar_reservacion 739047 200 bd1
         [''1'', ''06-13-2024'', ''1'', ''TARDE'', ''Kickoff''])) = Some ShiftOccupied
   \<and> sala_disponible bd1 1 739050 (lower ''noche'') = Inr True \<and> strip ''  '' = []
   \<and> primera_falla (fst (registrar_reservacion 739047 200 bd1
         [''1'', ''06-13-2024'', ''1'', ''noche'', ''  ''])) = Some BlankEventName
   \<and> strip ''X'' = ''X''
   \<and> registrar_reservacion 739047 200 bd1 [''1'', ''06-13-2024'', ''1'', ''noche'', ''X''] =
       ([TablaClientes, TablaSalas [(1, ''A'', 5, [manana, ''noche''])],
         Registrada 2 ''Ana Ruiz'' ''A'' 739050 ''noche'' ''X''], Valor bd2 [])"
proof -
  have c0: "clientes bd_sin_clientes = []" "clientes bd1 \<noteq> []"
    by (simp_all add: bd_sin_clientes_def bd1_def bd0_def)
  have c7: "\<not> validar_clave_cliente 7 (clientes bd1)"
    by (simp add: validar_clave_cliente_def bd1_def bd0_def)
  have c3: "validar_clave_cliente 1 (clientes bd3)"
    by (simp add: validar_clave_cliente_def bd3_def bd2_def bd1_def bd0_def)
  have z: "(7::int) \<noteq> 0" "(1::int) \<noteq> 0" by simp_all
  have t: "lower ''TARDE'' \<in> set TURNOS" "lower ''noche'' \<in> set TURNOS"
    by (simp_all add: lower_turnos TURNOS_def)
  have s: "map s_id_sala (salas bd1) = [1]" "map s_id_sala (salas bd3) = [1]"
    by (simp_all add: bd3_def bd2_def bd1_def bd0_def)
  have m: "1 \<in> s_id_sala ` set (salas bd1)" "1 \<in> s_id_sala ` set (salas bd3)"
    by (simp_all add: bd3_def bd2_def bd1_def bd0_def)
  have si: "sqlite_int 1" by (simp add: sqlite_int_def)
  have k: "\<forall>s \<in> set (salas bd1). sqlite_int (s_id_sala s)"
          "\<forall>s \<in> set (salas bd3). sqlite_int (s_id_sala s)"
    by (simp_all add: bd3_def bd2_def bd1_def bd0_def sqlite_int_def)
  have x: "strip ''X'' \<noteq> []" by (simp add: strip_ejemplos2)
  have n: "strip ''Kickoff'' \<noteq> []" by (simp add: strip_ejemplos)
  note th_a = check_order[OF py_int_1, where bd = bd_sin_clientes and hoy = 739047
      and ahora = 200 and ins' = "[]"]
  note th_b = check_order[OF py_int_0, where bd = bd1 and hoy = 739047 and ahora = 200
      and ins' = "[''06-13-2024'']"]
  note th_c = check_order[OF py_int_7, where bd = bd1 and hoy = 739047 and ahora = 200
      and ins' = "[]"]
  note th_d1 = check_order[OF py_int_1, where bd = bd3 and hoy = 739047 and ahora = 200
      and fx = "''06-13-2024''" and fecha = 739050 and x = "''1''" and id_sala = 1
      and y = "''TARDE''" and e = "''Kickoff''" and ins = "[]"]
  note th_d2 = check_order[OF py_int_1, where bd = bd1 and hoy = 739047 and ahora = 200
      and fx = "''06-13-2024''" and fecha = 739050 and x = "''1''" and id_sala = 1
      and y = "''TARDE''" and e = "''Kickoff''" and ins = "[]"]
  note th_d3 = check_order[OF py_int_1, where bd = bd1 and hoy = 739047 and ahora = 200
      and fx = "''06-13-2024''" and fecha = 739050 and x = "''1''" and id_sala = 1
      and y = "''noche''" and e = "''  ''" and ins = "[]"]
  note th_d4 = check_order[OF py_int_1, where bd = bd1 and hoy = 739047 and ahora = 200
      and fx = "''06-13-2024''" and fecha = 739050 and x = "''1''" and id_sala = 1
      and y = "''noche''" and e = "''X''" and ins = "[]"]
  from th_a c0(1)
  have a: "registrar_reservacion 739047 200 bd_sin_clientes [''1''] =
             ([NoHayClientes], Retorno [''1''])"
    by blast
  from th_b c0(2)
  have b: "registrar_reservacion 739047 200 bd1 [''0'', ''06-13-2024''] =
             ([TablaClientes], Retorno [''06-13-2024''])"
    by blast
  from th_c c0(2) z(1) c7
  have c: "primera_falla (fst (registrar_reservacion 739047 200 bd1 [''7''])) = Some UnknownClient"
    by blast
  from th_d1 z(2) c3 fecha_jun13 py_int_1 t(1) m(2) k(2)
  have "\<exists>disponibles libre.
               disponible_salas bd3 739050 (salas bd3) = Inr disponibles
             \<and> sala_disponible bd3 1 739050 (lower ''TARDE'') = Inr libre
             \<and> (disponibles = [] \<longrightarrow>
                  \<not> libre
                  \<and> registrar_reservacion 739047 200 bd3
                       [''1'', ''06-13-2024'', ''1'', ''TARDE'', ''Kickoff''] =
                      ([TablaClientes, NoHaySalasDisponibles],
                       Retorno [''1'', ''TARDE'', ''Kickoff'']))"
    by blast
  then have d1: "registrar_reservacion 739047 200 bd3
                       [''1'', ''06-13-2024'', ''1'', ''TARDE'', ''Kickoff''] =
                      ([TablaClientes, NoHaySalasDisponibles],
                       Retorno [''1'', ''TARDE'', ''Kickoff''])"
    by (auto simp: disponibles_bd3)
  from th_d2 z(2) cliente_bd1 fecha_jun13 py_int_1 t(1) m(1) k(1)
  have "\<exists>disponibles libre.
               disponible_salas bd1 739050 (salas bd1) = Inr disponibles
             \<and> sala_disponible bd1 1 739050 (lower ''TARDE'') = Inr libre
             \<and> (disponibles \<noteq> [] \<and> \<not> libre \<longrightarrow>
                  primera_falla
                    (fst (registrar_reservacion 739047 200 bd1
                            [''1'', ''06-13-2024'', ''1'', ''TARDE'', ''Kickoff'']))
                    = Some ShiftOccupied)"
    by blast
  then have d2: "primera_falla
                    (fst (registrar_reservacion 739047 200 bd1
                            [''1'', ''06-13-2024'', ''1'', ''TARDE'', ''Kickoff'']))
                    = Some ShiftOccupied"
    by (auto simp: disponibles_bd1 tarde_ocupada_bd1)
  from th_d3 z(2) cliente_bd1 fecha_jun13 py_int_1 t(2) m(1) k(1)
  have "\<exists>disponibles libre.
               disponible_salas bd1 739050 (salas bd1) = Inr disponibles
             \<and> sala_disponible bd1 1 739050 (lower ''noche'') = Inr libre
             \<and> (libre \<and> strip ''  '' = [] \<longrightarrow>
                  primera_falla
                    (fst (registrar_reservacion 739047 200 bd1
                            [''1'', ''06-13-2024'', ''1'', ''noche'', ''  '']))
                    = Some BlankEventName)"
    by blast
  then have d3: "primera_falla
                    (fst (registrar_reservacion 739047 200 bd1
                            [''1'', ''06-13-2024'', ''1'', ''noche'', ''  '']))
                    = Some BlankEventName"
    by (auto simp: noche_libre_bd1 strip_ejemplos)
  from th_d4 z(2) cliente_bd1 fecha_jun13 py_int_1 t(2) m(1) k(1)
  have "\<exists>disponibles libre.
               disponible_salas bd1 739050 (salas bd1) = Inr disponibles
             \<and> sala_disponible bd1 1 739050 (lower ''noche'') = Inr libre
             \<and> (libre \<and> strip ''X'' \<noteq> [] \<longrightarrow>
                  registrar_reservacion 739047 200 bd1
                    [''1'', ''06-13-2024'', ''1'', ''noche'', ''X''] =
                    ([TablaClientes, TablaSalas disponibles,
                      Registrada (siguiente_folio bd1) (hd (nombre_cliente bd1 1))
                        (hd (nombre_sala bd1 1)) 739050 (lower ''noche'') (strip ''X'')],
                     Valor (snd (insertar_reservacion bd1 1 1 (739050, 200) (lower ''noche'')
                                   (strip ''X''))) []))"
    by blast
  then have d4: "registrar_reservacion 739047 200 bd1
                    [''1'', ''06-13-2024'', ''1'', ''noche'', ''X''] =
                    ([TablaClientes, TablaSalas [(1, ''A'', 5, [manana, ''noche''])],
                      Registrada (siguiente_folio bd1) (hd (nombre_cliente bd1 1))
                        (hd (nombre_sala bd1 1)) 739050 (lower ''noche'') (strip ''X'')],
                     Valor (snd (insertar_reservacion bd1 1 1 (739050, 200) (lower ''noche'')
                                   (strip ''X''))) [])"
    using x by (auto simp: disponibles_bd1 noche_libre_bd1)
  have d4': "registrar_reservacion 739047 200 bd1
                    [''1'', ''06-13-2024'', ''1'', ''noche'', ''X''] =
       ([TablaClientes, TablaSalas [(1, ''A'', 5, [manana, ''noche''])],
         Registrada 2 ''Ana Ruiz'' ''A'' 739050 ''noche'' ''X''], Valor bd2 [])"
    unfolding d4
    by (simp add: siguiente_folio_def nombre_cliente_def nombre_sala_def insertar_reservacion_def
        lower_turnos strip_ejemplos2 bd2_def bd1_def bd0_def)
  from a b c d1 d2 d3 d4' py_int_1 py_int_0 py_int_7 c0 c7 cliente_bd1 fecha_jun13 s si
    disponibles_bd3 tarde_ocupada_bd3 disponibles_bd1 tarde_ocupada_bd1 noche_libre_bd1
    strip_ejemplos(3) strip_ejemplos2(3)
  show ?thesis by simp
qed

end
